theory Spec2Isabelle
  imports Complex_Main
begin

section \<open>Strings of the reader\<close>

text \<open>
  The reader (\<^verbatim>\<open>webreader/src/main.ts\<close>) works on JavaScript strings. They are modelled as
  \<^typ>\<open>string\<close>: one \<^typ>\<open>char\<close> per code unit, for code units below 256. Every string
  operation of the source that is modelled here (\<^verbatim>\<open>split\<close> on a one-character separator,
  \<^verbatim>\<open>replace\<close> with the two regular expressions of \<^verbatim>\<open>cleanText\<close>, \<^verbatim>\<open>trim\<close>,
  \<^verbatim>\<open>toLowerCase\<close>, \<^verbatim>\<open>endsWith\<close>) works code unit by code unit.
\<close>

text \<open>\<^verbatim>\<open>String.prototype.split(sep)\<close> for a separator of one character: never empty.\<close>

fun js_split :: "char \<Rightarrow> string \<Rightarrow> string list" where
  "js_split sep [] = [[]]"
| "js_split sep (c # cs) =
     (if c = sep then [] # js_split sep cs
      else (case js_split sep cs of
              [] \<Rightarrow> [[c]]
            | w # ws \<Rightarrow> (c # w) # ws))"

text \<open>
  White space of \<^verbatim>\<open>String.prototype.trim\<close> among the code units below 256: tab, line feed,
  vertical tab, form feed, carriage return, space and the no-break space.
\<close>

definition js_space :: "char \<Rightarrow> bool" where
  "js_space c = ((of_char c :: nat) \<in> {9, 10, 11, 12, 13, 32, 160})"

definition js_trim :: "string \<Rightarrow> string" where
  "js_trim s = rev (dropWhile js_space (rev (dropWhile js_space s)))"

text \<open>\<^verbatim>\<open>const cleanHref = (href: string) => href.split('#')[0]\<close>\<close>

definition cleanHref :: "string \<Rightarrow> string" where
  "cleanHref href = (case js_split (CHR ''#'') href of [] \<Rightarrow> [] | x # _ \<Rightarrow> x)"

text \<open>\<^verbatim>\<open>.replace(/[-_]/g, ' ')\<close>: every hyphen and underscore becomes a space.\<close>

definition replace_dash_underscore :: "string \<Rightarrow> string" where
  "replace_dash_underscore s =
     map (\<lambda>c. if c = CHR ''-'' \<or> c = CHR ''_'' then CHR '' '' else c) s"

text \<open>
  \<^verbatim>\<open>.replace(/\.[^.]+$/, '')\<close>: the leftmost position where a dot is followed by one or more
  characters other than a dot up to the end of the string; the match is removed. The scan
  goes from left to right, as the regular expression search does.
\<close>

fun replace_extension :: "string \<Rightarrow> string" where
  "replace_extension [] = []"
| "replace_extension (c # cs) =
     (if c = CHR ''.'' \<and> cs \<noteq> [] \<and> CHR ''.'' \<notin> set cs then []
      else c # replace_extension cs)"

text \<open>
  \<^verbatim>\<open>
  const cleanText = (value: string) =>
    value.split('/').pop()?.replace(/[-_]/g, ' ').replace(/\.[^.]+$/, '')?.trim() ?? value
  \<close>
  \<^verbatim>\<open>pop()\<close> of an empty array is \<^verbatim>\<open>undefined\<close>, and then the whole chain is \<^verbatim>\<open>value\<close>.
\<close>

definition cleanText :: "string \<Rightarrow> string" where
  "cleanText v =
     (case js_split (CHR ''/'') v of
        [] \<Rightarrow> v
      | seg # segs \<Rightarrow> js_trim (replace_extension (replace_dash_underscore (last (seg # segs)))))"

text \<open>\<^verbatim>\<open>String.prototype.toLowerCase\<close> on code units below 256, and \<^verbatim>\<open>endsWith\<close>.\<close>

definition js_toLowerCase :: "string \<Rightarrow> string" where
  "js_toLowerCase s =
     map (\<lambda>c. let n = (of_char c :: nat) in
            if (65 \<le> n \<and> n \<le> 90) \<or> (192 \<le> n \<and> n \<le> 222 \<and> n \<noteq> 215)
            then char_of (n + 32) else c) s"

definition js_endsWith :: "string \<Rightarrow> string \<Rightarrow> bool" where
  "js_endsWith s suf = (length suf \<le> length s \<and> drop (length s - length suf) s = suf)"

text \<open>
  Numbers. A finite \<^verbatim>\<open>Number\<close> is modelled by the real number it denotes, and the
  arithmetic of the source by the exact operation followed by the rounding to double
  precision, \<open>to_double\<close>: round to nearest, a tie going to the even significand, with 53
  bits of significand and the smallest exponent of the format. \<^verbatim>\<open>NaN\<close>, the infinities
  and overflow are not modelled.
\<close>

definition pow2 :: "int \<Rightarrow> real" where
  "pow2 k = (if 0 \<le> k then 2 ^ nat k else 1 / 2 ^ nat (- k))"

fun bitlength :: "nat \<Rightarrow> nat" where
  "bitlength n = (if n = 0 then 0 else Suc (bitlength (n div 2)))"

declare bitlength.simps [simp del]

text \<open>The exponent \<open>e\<close> with \<open>2 ^ e \<le> x < 2 ^ (e + 1)\<close>, for a positive \<open>x\<close>.\<close>

definition binade :: "real \<Rightarrow> int" where
  "binade x =
     (if 1 \<le> x then int (bitlength (nat \<lfloor>x\<rfloor>)) - 1
      else - int (bitlength (nat (\<lceil>1 / x\<rceil> - 1))))"

definition round_half_even :: "real \<Rightarrow> int" where
  "round_half_even x =
     (let f = \<lfloor>x\<rfloor>; r = x - of_int f
      in if r < 1 / 2 then f
         else if 1 / 2 < r then f + 1
         else if even f then f else f + 1)"

definition to_double :: "real \<Rightarrow> real" where
  "to_double x =
     (if x = 0 then 0
      else (let e = max (binade \<bar>x\<bar>) (- 1022);
                ulp = pow2 (e - 52)
            in of_int (round_half_even (x / ulp)) * ulp))"

text \<open>
  \<^verbatim>\<open>Math.round\<close> of a finite number: the nearest integer, a tie going up. It is exact on
  doubles.
\<close>

definition Math_round :: "real \<Rightarrow> int" where
  "Math_round x = \<lfloor>x + 1 / 2\<rfloor>"

text \<open>The decimal digits of an integer, as a template literal prints a whole number.\<close>

fun show_nat :: "nat \<Rightarrow> string" where
  "show_nat n =
     (if n < 10 then [''0123456789'' ! n]
      else show_nat (n div 10) @ [''0123456789'' ! (n mod 10)])"

declare show_nat.simps [simp del]

definition show_int :: "int \<Rightarrow> string" where
  "show_int i = (if i < 0 then CHR ''-'' # show_nat (nat (- i)) else show_nat (nat i))"

section \<open>Data of the reader\<close>

type_synonym handle = nat
type_synonym err = string

record AuthUser =
  user_id :: string
  email :: string
  displayName :: string
  createdAt :: "string option"

record SessionPayload =
  token :: string
  user :: AuthUser

datatype NavItem =
  NavItem (nav_id: string) (href: string) (label: string) (subitems: "NavItem list option")

record Location =
  start_cfi :: string
  start_href :: "string option"

record File =
  name :: string

record Metadata =
  title :: "string option"
  creator :: "string option"

text \<open>
  \<^verbatim>\<open>book.locations\<close> as the reader sees it: \<open>loc_length\<close> is \<open>None\<close> when
  \<^verbatim>\<open>typeof book.locations.length !== 'function'\<close>, and the result of \<^verbatim>\<open>length()\<close> otherwise;
  \<open>percentageFromCfi\<close> returns a finite number.
\<close>

record Locations =
  loc_length :: "nat option"
  percentageFromCfi :: "string \<Rightarrow> real"

text \<open>The navigation panel: the placeholder paragraph, or one button per entry.\<close>

datatype toc_node = TocEmpty | TocLink nat string string

datatype log = ConsoleError err | ConsoleWarn string err

text \<open>The calls the reader makes on a handle of the rendering library.\<close>

datatype call = ThemesDefault | Display "string option" | Prev | Next | Generate nat | Destroy

datatype event_name = Rendered | Relocated

text \<open>
  The module's variables (\<^verbatim>\<open>session\<close>, \<^verbatim>\<open>book\<close>, \<^verbatim>\<open>rendition\<close>, \<^verbatim>\<open>navLabels\<close>,
  \<^verbatim>\<open>currentLabel\<close>), the local storage, the parts of the page the code writes, the
  console, and the rendering library's side: the handles that were created and not
  destroyed (\<open>live\<close>), the listeners registered with \<^verbatim>\<open>on\<close>, and the calls received.
\<close>

record app =
  session :: "SessionPayload option"
  storage :: "string \<rightharpoonup> string"
  book :: "handle option"
  rendition :: "handle option"
  navLabels :: "string \<rightharpoonup> string"
  currentLabel :: string
  statusEl :: string
  metaEl :: string
  tocEl :: "toc_node list"
  viewerEl :: "handle list"
  fileInput_value :: string
  fileInput_disabled :: bool
  prevBtn_disabled :: bool
  nextBtn_disabled :: bool
  logoutBtn_hidden :: bool
  authShell_state :: string
  userGreeting :: string
  authMessage :: string
  dropHint_text :: string
  dropHint_visible :: "string option"
  dragging :: bool
  console :: "log list"
  live :: "handle set"
  next_handle :: handle
  listeners :: "(handle \<times> event_name) list"
  calls :: "(handle \<times> call) list"

text \<open>\<^verbatim>\<open>let\<close> declarations and the markup of \<^verbatim>\<open>root.innerHTML\<close>: the state at start-up.\<close>

definition init :: "(string \<rightharpoonup> string) \<Rightarrow> app" where
  "init stored =
     \<lparr> session = None, storage = stored, book = None, rendition = None,
       navLabels = Map.empty, currentLabel = ''idle'', statusEl = ''idle'',
       metaEl = ''no book loaded'', tocEl = [], viewerEl = [],
       fileInput_value = [], fileInput_disabled = False, prevBtn_disabled = False,
       nextBtn_disabled = False, logoutBtn_hidden = False, authShell_state = [],
       userGreeting = ''guest mode'', authMessage = ''sign in to unlock the reader'',
       dropHint_text = ''sign in to drop your .epub anywhere'', dropHint_visible = None,
       dragging = False, console = [], live = {}, next_handle = 0, listeners = [],
       calls = [] \<rparr>"

section \<open>Session persistence and the sign-in guard\<close>

definition SESSION_KEY :: string where
  "SESSION_KEY = ''mono-reader-session''"

definition updateAuthUI :: "app \<Rightarrow> app" where
  "updateAuthUI s =
     (let authed = (session s \<noteq> None) in
      s\<lparr> authShell_state := (if authed then ''authed'' else ''guest''),
         userGreeting := (case session s of
                            Some p \<Rightarrow> ''hello, '' @ displayName (user p)
                          | None \<Rightarrow> ''guest mode''),
         logoutBtn_hidden := \<not> authed,
         fileInput_disabled := \<not> authed,
         prevBtn_disabled := \<not> authed,
         nextBtn_disabled := \<not> authed,
         dropHint_text := (if authed then ''drop your .epub anywhere''
                           else ''sign in to drop your .epub anywhere''),
         authMessage := (if authed then ''reader unlocked''
                         else ''sign in to unlock the reader'') \<rparr>)"

text \<open>
  \<^verbatim>\<open>persistSession\<close>. \<open>stringify\<close> stands for \<^verbatim>\<open>JSON.stringify\<close> on a session payload.
\<close>

definition persistSession ::
  "(SessionPayload \<Rightarrow> string) \<Rightarrow> SessionPayload option \<Rightarrow> app \<Rightarrow> app" where
  "persistSession stringify payload s =
     (let s1 = s\<lparr> session := payload \<rparr>;
          s2 = (case payload of
                  Some p \<Rightarrow> s1\<lparr> storage := (storage s1)(SESSION_KEY \<mapsto> stringify p) \<rparr>
                | None \<Rightarrow> s1\<lparr> storage := (storage s1)(SESSION_KEY := None) \<rparr>)
      in updateAuthUI s2)"

definition setStatus :: "string \<Rightarrow> app \<Rightarrow> app" where
  "setStatus text s = s\<lparr> statusEl := text \<rparr>"

definition setMeta :: "string \<Rightarrow> string option \<Rightarrow> app \<Rightarrow> app" where
  "setMeta ttl author s =
     s\<lparr> metaEl := (case author of
                     None \<Rightarrow> ttl
                   | Some a \<Rightarrow> if a \<noteq> [] \<and> length (js_trim a) > 0
                              then ttl @ '' / '' @ a else ttl) \<rparr>"

text \<open>\<^verbatim>\<open>guardAuth\<close>: the state it leaves, and its boolean result.\<close>

definition guardAuth :: "app \<Rightarrow> app \<times> bool" where
  "guardAuth s =
     (case session s of
        None \<Rightarrow> (setStatus ''login required to open books''
                   (s\<lparr> authMessage := ''sign in first - then import'' \<rparr>), False)
      | Some _ \<Rightarrow> (s, True))"

section \<open>The book session\<close>

text \<open>\<^verbatim>\<open>handle.destroy()\<close>: the library receives the call and the handle is no longer live.\<close>

definition destroy :: "handle \<Rightarrow> app \<Rightarrow> app" where
  "destroy h s = s\<lparr> live := live s - {h}, calls := calls s @ [(h, Destroy)] \<rparr>"

definition resetBook :: "app \<Rightarrow> app" where
  "resetBook s =
     (let s1 = s\<lparr> navLabels := Map.empty, currentLabel := ''idle'', tocEl := [],
                   viewerEl := [] \<rparr>;
          s2 = (case rendition s1 of
                  Some r \<Rightarrow> (destroy r s1)\<lparr> rendition := None \<rparr>
                | None \<Rightarrow> s1);
          s3 = (case book s2 of
                  Some b \<Rightarrow> (destroy b s2)\<lparr> book := None \<rparr>
                | None \<Rightarrow> s2)
      in s3)"

text \<open>
  \<^verbatim>\<open>paint\<close> inside \<^verbatim>\<open>renderToc\<close>: for each item in order, the label is stored under the
  href without its fragment and a button is appended to the fragment (\<open>paint_item\<close>), and
  the children are painted one level deeper when \<^verbatim>\<open>item.subitems?.length\<close> is truthy. The
  pair is the \<^verbatim>\<open>navLabels\<close> map and the document fragment.
\<close>

definition paint_item ::
  "nat \<Rightarrow> string \<Rightarrow> string \<Rightarrow> (string \<rightharpoonup> string) \<times> toc_node list \<Rightarrow>
   (string \<rightharpoonup> string) \<times> toc_node list" where
  "paint_item depth h l acc =
     (let normalized = cleanHref h
      in ((fst acc)(normalized \<mapsto> js_trim l), snd acc @ [TocLink depth l h]))"

fun paint ::
  "NavItem list \<Rightarrow> nat \<Rightarrow> (string \<rightharpoonup> string) \<times> toc_node list \<Rightarrow>
   (string \<rightharpoonup> string) \<times> toc_node list" where
  "paint [] depth acc = acc"
| "paint (NavItem i h l None # rest) depth acc =
     paint rest depth (paint_item depth h l acc)"
| "paint (NavItem i h l (Some []) # rest) depth acc =
     paint rest depth (paint_item depth h l acc)"
| "paint (NavItem i h l (Some (k # ks)) # rest) depth acc =
     paint rest depth (paint (k # ks) (depth + 1) (paint_item depth h l acc))"

definition renderToc :: "NavItem list \<Rightarrow> app \<Rightarrow> app" where
  "renderToc items s =
     (if items = [] then s\<lparr> tocEl := [TocEmpty] \<rparr>
      else (let acc = paint items 0 (navLabels s, [])
            in s\<lparr> navLabels := fst acc, tocEl := snd acc \<rparr>))"

text \<open>
  \<^verbatim>\<open>updateProgress\<close>. \<open>lib\<close> gives, for a book handle, what \<^verbatim>\<open>book.locations\<close> is at
  the time of the call (\<open>None\<close> when it is missing). The product with 100 is the
  double-precision product.
\<close>

definition updateProgress :: "(handle \<Rightarrow> Locations option) \<Rightarrow> Location \<Rightarrow> app \<Rightarrow> app" where
  "updateProgress lib location s =
     (case book s of
        None \<Rightarrow> s
      | Some b \<Rightarrow>
          (case lib b of
             None \<Rightarrow> s
           | Some locations \<Rightarrow>
               (case loc_length locations of
                  None \<Rightarrow> s
                | Some n \<Rightarrow>
                    if n = 0 then s
                    else (let pct = Math_round
                                      (to_double
                                        (percentageFromCfi locations (start_cfi location) * 100));
                              lbl = (if currentLabel s = [] then ''reading''
                                     else currentLabel s)
                          in setStatus (lbl @ '' / '' @ show_int pct @ ''%'') s))))"

text \<open>The two callbacks registered in \<^verbatim>\<open>openBook\<close>.\<close>

definition on_rendered :: "string \<Rightarrow> app \<Rightarrow> app" where
  "on_rendered section_href s =
     (let normalized = cleanHref section_href;
          lbl = (case navLabels s normalized of
                   Some l \<Rightarrow> l
                 | None \<Rightarrow> cleanText normalized)
      in setStatus lbl (s\<lparr> currentLabel := lbl \<rparr>))"

definition on_relocated :: "(handle \<Rightarrow> Locations option) \<Rightarrow> Location \<Rightarrow> app \<Rightarrow> app" where
  "on_relocated lib location s = updateProgress lib location s"

text \<open>
  An event emitted by a rendering handle runs the callback registered on that handle, if
  there is one. The source never removes a listener.
\<close>

datatype event = RenderedEv string | RelocatedEv Location

fun emit :: "(handle \<Rightarrow> Locations option) \<Rightarrow> handle \<Rightarrow> event \<Rightarrow> app \<Rightarrow> app" where
  "emit lib h (RenderedEv section_href) s =
     (if (h, Rendered) \<in> set (listeners s) then on_rendered section_href s else s)"
| "emit lib h (RelocatedEv location) s =
     (if (h, Relocated) \<in> set (listeners s) then on_relocated lib location s else s)"

subsection \<open>Loading a book\<close>

text \<open>
  \<^verbatim>\<open>openBook\<close> is an \<^verbatim>\<open>async\<close> function: it runs until its next \<^verbatim>\<open>await\<close> and is
  resumed when the awaited promise settles; other handlers may run in between. A task
  records the file and the \<^verbatim>\<open>await\<close> at which the call is suspended. What the file and
  the rendering library answer during one load is given by a \<open>collaborator\<close>: for each
  promise whether it is fulfilled or rejected, for each synchronous call whether it throws.
\<close>

datatype 'a settled = Fulfilled 'a | Rejected err

datatype pc =
  AwaitBuffer | AwaitReady | AwaitNavigation | AwaitDisplay | AwaitMetadata | AwaitGenerate

datatype task = Task (task_file: File) (task_pc: pc)

record collaborator =
  arrayBuffer_r :: "unit settled"
  ePub_r :: "unit settled"
  ready_r :: "unit settled"
  renderTo_r :: "unit settled"
  themes_r :: "unit settled"
  on_rendered_r :: "unit settled"
  on_relocated_r :: "unit settled"
  navigation_r :: "NavItem list option settled"
  display_r :: "unit settled"
  metadata_r :: "Metadata settled"
  generate_r :: "unit settled"

definition TypeError :: err where
  "TypeError = ''TypeError''"

text \<open>The \<^verbatim>\<open>catch\<close> and \<^verbatim>\<open>finally\<close> blocks of \<^verbatim>\<open>openBook\<close>; the call returns.\<close>

definition load_failed :: "err \<Rightarrow> app \<Rightarrow> app \<times> task option" where
  "load_failed e s =
     ((setStatus ''unable to load epub'' (s\<lparr> console := console s @ [ConsoleError e] \<rparr>))
        \<lparr> fileInput_value := [] \<rparr>, None)"

text \<open>The last statement of the \<^verbatim>\<open>try\<close> block, and \<^verbatim>\<open>finally\<close>; the call returns.\<close>

definition load_done :: "app \<Rightarrow> app \<times> task option" where
  "load_done s =
     ((setStatus ''use arrows, nav, or scroll freely'' s)\<lparr> fileInput_value := [] \<rparr>, None)"

text \<open>From the call to the first \<^verbatim>\<open>await\<close> (\<^verbatim>\<open>file.arrayBuffer()\<close>).\<close>

definition openBook_start :: "File \<Rightarrow> app \<Rightarrow> app \<times> task option" where
  "openBook_start file s =
     (setStatus ''loading epub...'' (setMeta (name file) None (resetBook s)),
      Some (Task file AwaitBuffer))"

text \<open>
  The pieces of the \<^verbatim>\<open>try\<close> block between two \<^verbatim>\<open>await\<close>s. Each either throws, \<open>Inl\<close>
  with the exception and the state at that point, or runs to the next \<^verbatim>\<open>await\<close> or to the
  end of the block, \<open>Inr\<close>.
\<close>

type_synonym try_result = "(err \<times> app) + (app \<times> task option)"

text \<open>\<^verbatim>\<open>book = ePub(buffer)\<close>, then \<^verbatim>\<open>await book.ready\<close>.\<close>

definition after_buffer :: "collaborator \<Rightarrow> File \<Rightarrow> app \<Rightarrow> try_result" where
  "after_buffer c file s =
     (case arrayBuffer_r c of
        Rejected e \<Rightarrow> Inl (e, s)
      | Fulfilled _ \<Rightarrow>
          (case ePub_r c of
             Rejected e \<Rightarrow> Inl (e, s)
           | Fulfilled _ \<Rightarrow>
               (let b = next_handle s
                in Inr (s\<lparr> book := Some b, live := insert b (live s), next_handle := b + 1 \<rparr>,
                        Some (Task file AwaitReady)))))"

definition applyTheme :: "collaborator \<Rightarrow> app \<Rightarrow> err + app" where
  "applyTheme c s =
     (case rendition s of
        None \<Rightarrow> Inr s
      | Some r \<Rightarrow>
          (case themes_r c of
             Rejected e \<Rightarrow> Inl e
           | Fulfilled _ \<Rightarrow> Inr (s\<lparr> calls := calls s @ [(r, ThemesDefault)] \<rparr>)))"

text \<open>
  \<^verbatim>\<open>rendition = book.renderTo(viewerEl, ...)\<close>, \<^verbatim>\<open>applyTheme()\<close>, the two \<^verbatim>\<open>rendition.on\<close>
  calls, then \<^verbatim>\<open>await book.loaded.navigation\<close>. The variable \<^verbatim>\<open>book\<close> is read when the
  call resumes: if it is \<^verbatim>\<open>null\<close> by then, the property access throws.
\<close>

definition after_ready :: "collaborator \<Rightarrow> File \<Rightarrow> app \<Rightarrow> try_result" where
  "after_ready c file s =
     (case ready_r c of
        Rejected e \<Rightarrow> Inl (e, s)
      | Fulfilled _ \<Rightarrow>
          (case book s of
             None \<Rightarrow> Inl (TypeError, s)
           | Some b \<Rightarrow>
               (case renderTo_r c of
                  Rejected e \<Rightarrow> Inl (e, s)
                | Fulfilled _ \<Rightarrow>
                    (let r = next_handle s;
                         s1 = s\<lparr> rendition := Some r, live := insert r (live s),
                                 next_handle := r + 1, viewerEl := viewerEl s @ [r] \<rparr>
                     in (case applyTheme c s1 of
                           Inl e \<Rightarrow> Inl (e, s1)
                         | Inr s2 \<Rightarrow>
                             (case on_rendered_r c of
                                Rejected e \<Rightarrow> Inl (e, s2)
                              | Fulfilled _ \<Rightarrow>
                                  (let s3 = s2\<lparr> listeners := listeners s2 @ [(r, Rendered)] \<rparr>
                                   in (case on_relocated_r c of
                                         Rejected e \<Rightarrow> Inl (e, s3)
                                       | Fulfilled _ \<Rightarrow>
                                           Inr (s3\<lparr> listeners :=
                                                      listeners s3 @ [(r, Relocated)] \<rparr>,
                                                Some (Task file AwaitNavigation))))))))))"

text \<open>\<^verbatim>\<open>renderToc(navigation.toc ?? [])\<close>, then \<^verbatim>\<open>await rendition.display()\<close>.\<close>

definition after_navigation :: "collaborator \<Rightarrow> File \<Rightarrow> app \<Rightarrow> try_result" where
  "after_navigation c file s =
     (case navigation_r c of
        Rejected e \<Rightarrow> Inl (e, s)
      | Fulfilled toc \<Rightarrow>
          (let s1 = renderToc (case toc of None \<Rightarrow> [] | Some items \<Rightarrow> items) s
           in (case rendition s1 of
                 None \<Rightarrow> Inl (TypeError, s1)
               | Some r \<Rightarrow>
                   Inr (s1\<lparr> calls := calls s1 @ [(r, Display None)] \<rparr>,
                        Some (Task file AwaitDisplay)))))"

text \<open>\<^verbatim>\<open>await book.loaded.metadata\<close>.\<close>

definition after_display :: "collaborator \<Rightarrow> File \<Rightarrow> app \<Rightarrow> try_result" where
  "after_display c file s =
     (case display_r c of
        Rejected e \<Rightarrow> Inl (e, s)
      | Fulfilled _ \<Rightarrow>
          (case book s of
             None \<Rightarrow> Inl (TypeError, s)
           | Some b \<Rightarrow> Inr (s, Some (Task file AwaitMetadata))))"

text \<open>\<^verbatim>\<open>const title = metadata.title?.trim() || cleanText(file.name)\<close>\<close>

definition load_title :: "File \<Rightarrow> Metadata \<Rightarrow> string" where
  "load_title file metadata =
     (case title metadata of
        None \<Rightarrow> cleanText (name file)
      | Some t \<Rightarrow> if js_trim t = [] then cleanText (name file) else js_trim t)"

text \<open>
  The title and \<^verbatim>\<open>setMeta\<close>, then the inner \<^verbatim>\<open>try\<close> with
  \<^verbatim>\<open>await book.locations.generate(1400)\<close>: an exception of the property access is caught
  by the inner \<^verbatim>\<open>catch\<close>, which warns, and the load finishes.
\<close>

definition after_metadata :: "collaborator \<Rightarrow> File \<Rightarrow> app \<Rightarrow> try_result" where
  "after_metadata c file s =
     (case metadata_r c of
        Rejected e \<Rightarrow> Inl (e, s)
      | Fulfilled metadata \<Rightarrow>
          (let s1 = setMeta (load_title file metadata) (map_option js_trim (creator metadata)) s
           in (case book s1 of
                 None \<Rightarrow>
                   Inr (load_done
                     (s1\<lparr> console := console s1 @
                           [ConsoleWarn ''locations unavailable'' TypeError] \<rparr>))
               | Some b \<Rightarrow>
                   Inr (s1\<lparr> calls := calls s1 @ [(b, Generate 1400)] \<rparr>,
                        Some (Task file AwaitGenerate)))))"

text \<open>The inner \<^verbatim>\<open>catch\<close> when generation is rejected, then the final status.\<close>

definition after_generate :: "collaborator \<Rightarrow> File \<Rightarrow> app \<Rightarrow> try_result" where
  "after_generate c file s =
     (case generate_r c of
        Rejected e \<Rightarrow>
          Inr (load_done
            (s\<lparr> console := console s @ [ConsoleWarn ''locations unavailable'' e] \<rparr>))
      | Fulfilled _ \<Rightarrow> Inr (load_done s))"

text \<open>The \<^verbatim>\<open>try\<close> block from the \<^verbatim>\<open>await\<close> at which the call is suspended.\<close>

definition try_resume :: "collaborator \<Rightarrow> task \<Rightarrow> app \<Rightarrow> try_result" where
  "try_resume c t s =
     (case task_pc t of
        AwaitBuffer \<Rightarrow> after_buffer c (task_file t) s
      | AwaitReady \<Rightarrow> after_ready c (task_file t) s
      | AwaitNavigation \<Rightarrow> after_navigation c (task_file t) s
      | AwaitDisplay \<Rightarrow> after_display c (task_file t) s
      | AwaitMetadata \<Rightarrow> after_metadata c (task_file t) s
      | AwaitGenerate \<Rightarrow> after_generate c (task_file t) s)"

text \<open>
  Resuming a suspended call when its promise settles, in whatever state the module is by
  then: the \<^verbatim>\<open>try\<close> block goes on, and an exception runs \<^verbatim>\<open>catch\<close> and \<^verbatim>\<open>finally\<close>.
\<close>

definition resume :: "collaborator \<Rightarrow> task \<Rightarrow> app \<Rightarrow> app \<times> task option" where
  "resume c t s =
     (case try_resume c t s of
        Inl (e, s1) \<Rightarrow> load_failed e s1
      | Inr r \<Rightarrow> r)"

text \<open>One settlement of a call that may already have returned.\<close>

fun settle :: "collaborator \<Rightarrow> app \<times> task option \<Rightarrow> app \<times> task option" where
  "settle c (s, None) = (s, None)"
| "settle c (s, Some t) = resume c t s"

text \<open>
  The special case of a call that nothing interleaves with: no other handler runs while
  it is suspended, and the six \<^verbatim>\<open>await\<close>s of the source settle one after the other. (In
  general the call is not awaited by its caller, and each \<open>resume\<close> starts from the state
  that other handlers have left.)
\<close>

definition settle_all :: "collaborator \<Rightarrow> app \<times> task option \<Rightarrow> app \<times> task option" where
  "settle_all c r = settle c (settle c (settle c (settle c (settle c (settle c r)))))"

definition openBook_uninterrupted ::
  "collaborator \<Rightarrow> File \<Rightarrow> app \<Rightarrow> app \<times> task option" where
  "openBook_uninterrupted c file s = settle_all c (openBook_start file s)"

text \<open>
  The same after five settlements: when every step succeeds the call is then suspended
  at \<^verbatim>\<open>await book.locations.generate(1400)\<close>.
\<close>

definition uninterrupted_until_generate ::
  "collaborator \<Rightarrow> File \<Rightarrow> app \<Rightarrow> app \<times> task option" where
  "uninterrupted_until_generate c file s =
     settle c (settle c (settle c (settle c (settle c (openBook_start file s)))))"

section \<open>Entry points\<close>

text \<open>
  \<^verbatim>\<open>pickAndOpen\<close>: the guard, then the first file whose lower-cased name ends in
  \<^verbatim>\<open>.epub\<close>, or else the first file; \<^verbatim>\<open>void openBook(match)\<close> runs the call up to its
  first \<^verbatim>\<open>await\<close>.
\<close>

definition pickAndOpen :: "File list option \<Rightarrow> app \<Rightarrow> app \<times> task option" where
  "pickAndOpen files s =
     (case guardAuth s of
        (s1, False) \<Rightarrow> (s1, None)
      | (s1, True) \<Rightarrow>
          (case files of
             None \<Rightarrow> (s1, None)
           | Some [] \<Rightarrow> (s1, None)
           | Some (f # fs) \<Rightarrow>
               (case find (\<lambda>candidate. js_endsWith (js_toLowerCase (name candidate)) ''.epub'')
                       (f # fs) of
                  Some m \<Rightarrow> openBook_start m s1
                | None \<Rightarrow> openBook_start f s1)))"

text \<open>The \<^verbatim>\<open>click\<close> listeners of the two buttons.\<close>

definition prevBtn_click :: "app \<Rightarrow> app" where
  "prevBtn_click s =
     (case guardAuth s of
        (s1, False) \<Rightarrow> s1
      | (s1, True) \<Rightarrow>
          (case rendition s1 of
             None \<Rightarrow> s1
           | Some r \<Rightarrow> s1\<lparr> calls := calls s1 @ [(r, Prev)] \<rparr>))"

definition nextBtn_click :: "app \<Rightarrow> app" where
  "nextBtn_click s =
     (case guardAuth s of
        (s1, False) \<Rightarrow> s1
      | (s1, True) \<Rightarrow>
          (case rendition s1 of
             None \<Rightarrow> s1
           | Some r \<Rightarrow> s1\<lparr> calls := calls s1 @ [(r, Next)] \<rparr>))"

text \<open>
  The \<^verbatim>\<open>keydown\<close> listener of the window, for the key of the event. It does not go
  through \<^verbatim>\<open>guardAuth\<close>.
\<close>

definition keydown :: "string \<Rightarrow> app \<Rightarrow> app" where
  "keydown key s =
     (case rendition s of
        None \<Rightarrow> s
      | Some r \<Rightarrow>
          (case session s of
             None \<Rightarrow> s
           | Some _ \<Rightarrow>
               (let s1 = (if key \<in> set [''ArrowLeft'', ''ArrowUp'', ''PageUp'']
                          then s\<lparr> calls := calls s @ [(r, Prev)] \<rparr> else s);
                    s2 = (if key \<in> set [''ArrowRight'', ''ArrowDown'', ''PageDown'', '' '']
                          then s1\<lparr> calls := calls s1 @ [(r, Next)] \<rparr> else s1)
                in s2)))"

definition hideDropState :: "app \<Rightarrow> app" where
  "hideDropState s = s\<lparr> dragging := False, dropHint_visible := Some ''false'' \<rparr>"

text \<open>
  The \<^verbatim>\<open>drop\<close> listener of the document: \<^verbatim>\<open>hideDropState()\<close>, then \<^verbatim>\<open>pickAndOpen\<close> on
  the dropped files (\<open>None\<close> when the event carries none).
\<close>

definition drop_handler :: "File list option \<Rightarrow> app \<Rightarrow> app \<times> task option" where
  "drop_handler items s = pickAndOpen items (hideDropState s)"

text \<open>The \<^verbatim>\<open>click\<close> listener of the logout button.\<close>

definition logout :: "(SessionPayload \<Rightarrow> string) \<Rightarrow> app \<Rightarrow> app" where
  "logout stringify s =
     setStatus ''signed out''
       (setMeta ''no book loaded'' None (resetBook (persistSession stringify None s)))"

text \<open>
  \<^verbatim>\<open>bootstrapSession\<close>. \<open>parse\<close> stands for \<^verbatim>\<open>JSON.parse\<close> restricted to what the cast
  \<^verbatim>\<open>as SessionPayload\<close> expects: \<open>None\<close> when it throws, \<open>Some None\<close> for the text
  \<^verbatim>\<open>null\<close>, \<open>Some (Some p)\<close> for a payload. The call is suspended at
  \<^verbatim>\<open>await callApi('/api/auth/me')\<close> with the parsed value at hand.
\<close>

datatype boot_task = AwaitMe "SessionPayload option"

definition bootstrap_start ::
  "(string \<Rightarrow> SessionPayload option option) \<Rightarrow> (SessionPayload \<Rightarrow> string) \<Rightarrow> app \<Rightarrow>
   app \<times> boot_task option" where
  "bootstrap_start parse stringify s =
     (case storage s SESSION_KEY of
        None \<Rightarrow> (updateAuthUI s, None)
      | Some stored \<Rightarrow>
          if stored = [] then (updateAuthUI s, None)
          else (case parse stored of
                  None \<Rightarrow> (persistSession stringify None s, None)
                | Some parsed \<Rightarrow> (updateAuthUI (s\<lparr> session := parsed \<rparr>), Some (AwaitMe parsed))))"

text \<open>
  The answer of \<^verbatim>\<open>/api/auth/me\<close> arrives: the user of the response is stored under the
  parsed token, and every exception (a rejected request, \<^verbatim>\<open>parsed.token\<close> of \<^verbatim>\<open>null\<close>)
  clears the session.
\<close>

definition bootstrap_resume ::
  "(SessionPayload \<Rightarrow> string) \<Rightarrow> AuthUser settled \<Rightarrow> boot_task \<Rightarrow> app \<Rightarrow> app" where
  "bootstrap_resume stringify response t s =
     (case t of
        AwaitMe parsed \<Rightarrow>
          (case response of
             Rejected e \<Rightarrow> persistSession stringify None s
           | Fulfilled u \<Rightarrow>
               (case parsed of
                  None \<Rightarrow> persistSession stringify None s
                | Some p \<Rightarrow> persistSession stringify (Some \<lparr> token = token p, user = u \<rparr>) s)))"

text \<open>The \<^verbatim>\<open>then\<close> branch of the login and register requests.\<close>

definition signed_in :: "(SessionPayload \<Rightarrow> string) \<Rightarrow> string \<Rightarrow> SessionPayload \<Rightarrow> app \<Rightarrow> app" where
  "signed_in stringify msg data s = (persistSession stringify (Some data) s)\<lparr> authMessage := msg \<rparr>"

section \<open>The label index as the specification words it\<close>

text \<open>
  The visiting order of the depth-first pre-order walk over a table of contents: a node,
  then its children, then its following siblings.
\<close>

fun preorder :: "NavItem list \<Rightarrow> NavItem list" where
  "preorder [] = []"
| "preorder (NavItem i h l subs # rest) =
     NavItem i h l subs # (case subs of None \<Rightarrow> [] | Some ks \<Rightarrow> preorder ks) @ preorder rest"

text \<open>What one visit stores: the trimmed label under the href without its fragment.\<close>

definition store_label :: "NavItem \<Rightarrow> (string \<rightharpoonup> string) \<Rightarrow> (string \<rightharpoonup> string)" where
  "store_label n m = m(cleanHref (href n) \<mapsto> js_trim (label n))"

text \<open>A table of contents in which a child repeats the reference of its parent.\<close>

definition toc_example :: "NavItem list" where
  "toc_example =
     [NavItem ''n1'' ''a.xhtml#top'' '' Part A '' (Some [NavItem ''n2'' ''a.xhtml'' ''Intro '' None]),
      NavItem ''n3'' ''b.xhtml'' ''Part B'' (Some [])]"

section \<open>The progress tracker as the specification words it\<close>

text \<open>
  The number \<^verbatim>\<open>updateProgress\<close> prints, apart from the printing: \<open>None\<close> when a guard
  of its first statement returns, and the rounded percentage otherwise. The argument is
  the value of \<^verbatim>\<open>book?.locations\<close>.
\<close>

definition percent :: "Locations option \<Rightarrow> Location \<Rightarrow> int option" where
  "percent locationIndex location =
     (case locationIndex of
        None \<Rightarrow> None
      | Some locations \<Rightarrow>
          (case loc_length locations of
             None \<Rightarrow> None
           | Some n \<Rightarrow>
               if n = 0 then None
               else Some (Math_round
                            (to_double
                              (percentageFromCfi locations (start_cfi location) * 100)))))"

text \<open>Rounding to the nearest integer, a tie going away from zero.\<close>

definition round_half_away_from_zero :: "real \<Rightarrow> int" where
  "round_half_away_from_zero x = (if 0 \<le> x then \<lfloor>x + 1 / 2\<rfloor> else \<lceil>x - 1 / 2\<rceil>)"

text \<open>A location index of \<open>n\<close> entries that maps every position to the fraction \<open>p\<close>.\<close>

definition index_at :: "nat \<Rightarrow> real \<Rightarrow> Locations" where
  "index_at n p = \<lparr> loc_length = Some n, percentageFromCfi = (\<lambda>cfi. p) \<rparr>"

definition somewhere :: Location where
  "somewhere = \<lparr> start_cfi = ''epubcfi(/6/4!/4/2)'', start_href = None \<rparr>"

section \<open>Outcomes of a load\<close>

definition fulfilled :: "'a settled \<Rightarrow> bool" where
  "fulfilled x = (case x of Fulfilled _ \<Rightarrow> True | Rejected _ \<Rightarrow> False)"

text \<open>
  The first failure among the steps from the file read to the metadata, in the order of
  the source; \<open>None\<close> when all of them succeed.
\<close>

definition first_failure :: "collaborator \<Rightarrow> err option" where
  "first_failure c =
     (case arrayBuffer_r c of Rejected e \<Rightarrow> Some e | Fulfilled _ \<Rightarrow>
     (case ePub_r c of Rejected e \<Rightarrow> Some e | Fulfilled _ \<Rightarrow>
     (case ready_r c of Rejected e \<Rightarrow> Some e | Fulfilled _ \<Rightarrow>
     (case renderTo_r c of Rejected e \<Rightarrow> Some e | Fulfilled _ \<Rightarrow>
     (case themes_r c of Rejected e \<Rightarrow> Some e | Fulfilled _ \<Rightarrow>
     (case on_rendered_r c of Rejected e \<Rightarrow> Some e | Fulfilled _ \<Rightarrow>
     (case on_relocated_r c of Rejected e \<Rightarrow> Some e | Fulfilled _ \<Rightarrow>
     (case navigation_r c of Rejected e \<Rightarrow> Some e | Fulfilled _ \<Rightarrow>
     (case display_r c of Rejected e \<Rightarrow> Some e | Fulfilled _ \<Rightarrow>
     (case metadata_r c of Rejected e \<Rightarrow> Some e | Fulfilled _ \<Rightarrow> None))))))))))"

text \<open>Whether the load got as far as creating its book handle, its rendering handle.\<close>

definition book_created :: "collaborator \<Rightarrow> bool" where
  "book_created c = (fulfilled (arrayBuffer_r c) \<and> fulfilled (ePub_r c))"

definition rendition_created :: "collaborator \<Rightarrow> bool" where
  "rendition_created c =
     (book_created c \<and> fulfilled (ready_r c) \<and> fulfilled (renderTo_r c))"

text \<open>The local storage and the variable \<^verbatim>\<open>session\<close> agree.\<close>

definition storage_consistent :: "(SessionPayload \<Rightarrow> string) \<Rightarrow> app \<Rightarrow> bool" where
  "storage_consistent stringify s =
     (storage s SESSION_KEY = map_option stringify (session s))"

section \<open>Concrete runs\<close>

definition reader_ab :: SessionPayload where
  "reader_ab =
     \<lparr> token = ''t1'',
       user = \<lparr> user_id = ''u1'', email = ''a@b.com'', displayName = ''ab'',
                createdAt = None \<rparr> \<rparr>"

text \<open>A signed-in reader with no book, and a guest.\<close>

definition reader0 :: app where
  "reader0 = updateAuthUI ((init Map.empty)\<lparr> session := Some reader_ab \<rparr>)"

definition guest0 :: app where
  "guest0 = updateAuthUI (init Map.empty)"

definition book_a :: File where
  "book_a = \<lparr> name = ''a.epub'' \<rparr>"

definition book_b :: File where
  "book_b = \<lparr> name = ''b.epub'' \<rparr>"

definition toc_a :: "NavItem list" where
  "toc_a = [NavItem ''a1'' ''a1.xhtml'' ''Alpha'' None]"

definition toc_b :: "NavItem list" where
  "toc_b = [NavItem ''b1'' ''b1.xhtml'' ''Beta'' None]"

text \<open>A library that answers every step of a load with success.\<close>

definition lib_ok :: "NavItem list \<Rightarrow> string \<Rightarrow> collaborator" where
  "lib_ok toc ttl =
     \<lparr> arrayBuffer_r = Fulfilled (), ePub_r = Fulfilled (), ready_r = Fulfilled (),
       renderTo_r = Fulfilled (), themes_r = Fulfilled (), on_rendered_r = Fulfilled (),
       on_relocated_r = Fulfilled (), navigation_r = Fulfilled (Some toc),
       display_r = Fulfilled (),
       metadata_r = Fulfilled \<lparr> title = Some ttl, creator = None \<rparr>,
       generate_r = Fulfilled () \<rparr>"

text \<open>A file whose bytes are not a book: \<^verbatim>\<open>book.ready\<close> is rejected.\<close>

definition lib_corrupt :: collaborator where
  "lib_corrupt = (lib_ok [] [])\<lparr> ready_r := Rejected ''invalid archive'' \<rparr>"

text \<open>A library whose location generation is rejected.\<close>

definition lib_no_locations :: collaborator where
  "lib_no_locations = (lib_ok toc_a ''Book A'')\<lparr> generate_r := Rejected ''too large'' \<rparr>"

text \<open>
  Book A is picked by the signed-in reader and its load has reached
  \<^verbatim>\<open>await book.locations.generate(1400)\<close>, which is pending.
\<close>

definition a_generating :: "app \<times> task option" where
  "a_generating =
     settle (lib_ok toc_a ''Book A'') (settle (lib_ok toc_a ''Book A'')
       (settle (lib_ok toc_a ''Book A'') (settle (lib_ok toc_a ''Book A'')
         (settle (lib_ok toc_a ''Book A'') (pickAndOpen (Some [book_a]) reader0)))))"

text \<open>
  Then section \<^verbatim>\<open>a1.xhtml\<close> of A is rendered, and the generation is rejected: the load of
  A returns.
\<close>

definition a_reading :: "app \<times> task option" where
  "a_reading =
     settle lib_no_locations
       (emit (\<lambda>b. None) 1 (RenderedEv ''a1.xhtml'') (fst a_generating), snd a_generating)"

text \<open>
  Or else, while the generation for A is pending, book B is picked; its load settles
  completely, and its section \<^verbatim>\<open>b1.xhtml\<close> is rendered.
\<close>

definition b_settled :: "app \<times> task option" where
  "b_settled =
     settle_all (lib_ok toc_b ''Book B'') (pickAndOpen (Some [book_b]) (fst a_generating))"

definition b_reading :: app where
  "b_reading = emit (\<lambda>b. None) 3 (RenderedEv ''b1.xhtml'') (fst b_settled)"

text \<open>
  Book A is picked and its load has reached \<^verbatim>\<open>await book.loaded.metadata\<close>; then book B
  is picked and its load settles completely.
\<close>

definition a_at_metadata :: "app \<times> task option" where
  "a_at_metadata =
     settle (lib_ok toc_a ''Book A'') (settle (lib_ok toc_a ''Book A'')
       (settle (lib_ok toc_a ''Book A'') (settle (lib_ok toc_a ''Book A'')
         (pickAndOpen (Some [book_a]) reader0))))"

definition b_over_metadata :: "app \<times> task option" where
  "b_over_metadata =
     settle_all (lib_ok toc_b ''Book B'') (pickAndOpen (Some [book_b]) (fst a_at_metadata))"

text \<open>
  The file that is not a book is picked; its bytes are read and \<^verbatim>\<open>ePub(buffer)\<close> has
  returned a handle: the load is suspended at \<^verbatim>\<open>await book.ready\<close>.
\<close>

definition corrupt_opening :: "app \<times> task option" where
  "corrupt_opening = settle lib_corrupt (pickAndOpen (Some [book_a]) reader0)"

text \<open>
  Book A is picked and, while its bytes are read, book B is picked. The bytes of A arrive
  first, then those of B, so that \<^verbatim>\<open>book\<close> holds the handle of B; then \<^verbatim>\<open>book.ready\<close> of A
  is rejected.
\<close>

definition a_fails_under_b :: "app \<times> task option" where
  "a_fails_under_b =
     (let picked_a = pickAndOpen (Some [book_a]) reader0;
          picked_b = pickAndOpen (Some [book_b]) (fst picked_a);
          bytes_a = settle lib_corrupt (fst picked_b, snd picked_a);
          bytes_b = settle (lib_ok toc_b ''Book B'') (fst bytes_a, snd picked_b)
      in settle lib_corrupt (fst bytes_b, snd bytes_a))"

text \<open>
  Book A is being read when the revalidation of the stored session fails: the session is
  cleared, the book stays.
\<close>

definition revalidation_failed :: app where
  "revalidation_failed = persistSession token None (fst a_reading)"

section \<open>Fallback labels\<close>

lemma js_split_not_Nil: "js_split sep s \<noteq> []"
  by (induction s) (auto split: list.splits)

lemma js_split_no_sep: "sep \<notin> set s \<Longrightarrow> js_split sep s = [s]"
  by (induction s) auto

lemma js_split_sep: "sep \<in> set s \<Longrightarrow> \<exists>w v ws. js_split sep s = w # v # ws"
proof (induction s)
  case Nil
  then show ?case by simp
next
  case (Cons c cs)
  obtain w ws where split: "js_split sep cs = w # ws"
    using js_split_not_Nil [of sep cs] by (cases "js_split sep cs") auto
  show ?case
  proof (cases "c = sep")
    case True
    then show ?thesis using split by simp
  next
    case False
    with Cons.prems have "sep \<in> set cs" by simp
    then obtain w' v' ws' where "js_split sep cs = w' # v' # ws'"
      using Cons.IH by blast
    then show ?thesis using False by simp
  qed
qed

lemma last_js_split: "last (js_split sep s) = rev (takeWhile (\<lambda>c. c \<noteq> sep) (rev s))"
proof (induction s)
  case Nil
  show ?case by simp
next
  case (Cons c cs)
  show ?case
  proof (cases "sep \<in> set cs")
    case True
    then obtain w v ws where split: "js_split sep cs = w # v # ws"
      using js_split_sep by blast
    have "takeWhile (\<lambda>c. c \<noteq> sep) (rev cs @ [c]) = takeWhile (\<lambda>c. c \<noteq> sep) (rev cs)"
      using True by (simp add: takeWhile_append1)
    then show ?thesis
      using Cons.IH split by simp
  next
    case False
    then have split: "js_split sep cs = [cs]"
      by (rule js_split_no_sep)
    have "\<And>x. x \<in> set (rev cs) \<Longrightarrow> x \<noteq> sep"
      using False by auto
    then have "takeWhile (\<lambda>c. c \<noteq> sep) (rev cs @ [c]) =
          rev cs @ takeWhile (\<lambda>c. c \<noteq> sep) [c]"
      by (rule takeWhile_append2)
    then show ?thesis
      using split by simp
  qed
qed

text \<open>
  Claim C9. \<^verbatim>\<open>humanize\<close> of the spec is \<^verbatim>\<open>cleanText\<close> of the source. Applied to
  \<^verbatim>\<open>chapters/intro_01.xhtml\<close> it returns \<^verbatim>\<open>intro 01\<close>; and on every input it is the trimmed
  last path segment (the text after the last slash) with hyphens and underscores replaced
  by spaces and the trailing extension removed.
\<close>

theorem cleanText_intro_01:
  "cleanText ''chapters/intro_01.xhtml'' = ''intro 01'' \<and>
   cleanText v =
     js_trim (replace_extension (replace_dash_underscore
       (rev (takeWhile (\<lambda>c. c \<noteq> CHR ''/'') (rev v)))))"
proof
  show "cleanText ''chapters/intro_01.xhtml'' = ''intro 01''"
    by (simp add: cleanText_def replace_dash_underscore_def js_trim_def js_space_def)
  show "cleanText v =
     js_trim (replace_extension (replace_dash_underscore
       (rev (takeWhile (\<lambda>c. c \<noteq> CHR ''/'') (rev v)))))"
    using js_split_not_Nil [of "CHR ''/''" v] last_js_split [of "CHR ''/''" v]
    by (cases "js_split (CHR ''/'') v") (simp_all add: cleanText_def)
qed

section \<open>Label index\<close>

lemma fst_paint_item:
  "fst (paint_item d h l acc) = store_label (NavItem i h l subs) (fst acc)"
  by (simp add: paint_item_def store_label_def)

lemma fst_paint: "fst (paint items d acc) = fold store_label (preorder items) (fst acc)"
proof (induction items d acc rule: paint.induct)
  case (1 depth acc)
  show ?case by simp
next
  case (2 i h l rest depth acc)
  then show ?case
    using fst_paint_item [of depth h l acc i None] by simp
next
  case (3 i h l rest depth acc)
  then show ?case
    using fst_paint_item [of depth h l acc i "Some []"] by simp
next
  case (4 i h l k ks rest depth acc)
  then show ?case
    using fst_paint_item [of depth h l acc i "Some (k # ks)"] by simp
qed

lemma fold_store_label_last:
  "r \<in> (\<lambda>n. cleanHref (href n)) ` set ns \<Longrightarrow>
   fold store_label ns m r =
     Some (js_trim (label (last (filter (\<lambda>k. cleanHref (href k) = r) ns))))"
proof (induction ns rule: rev_induct)
  case Nil
  then show ?case by simp
next
  case (snoc n ns)
  show ?case
  proof (cases "cleanHref (href n) = r")
    case True
    then show ?thesis by (simp add: store_label_def)
  next
    case False
    with snoc.prems have "r \<in> (\<lambda>n. cleanHref (href n)) ` set ns" by auto
    with snoc.IH False show ?thesis by (simp add: store_label_def)
  qed
qed

lemma cleanHref_takeWhile: "cleanHref h = takeWhile (\<lambda>c. c \<noteq> CHR ''#'') h"
proof -
  have "(case js_split sep s of [] \<Rightarrow> [] | x # _ \<Rightarrow> x) = takeWhile (\<lambda>c. c \<noteq> sep) s"
    for sep s
    by (induction s) (auto split: list.splits simp: js_split_not_Nil)
  then show ?thesis by (simp add: cleanHref_def)
qed

lemma cleanHref_idem: "cleanHref (cleanHref h) = cleanHref h"
  by (simp add: cleanHref_takeWhile)

text \<open>
  Claim C6. Once \<^verbatim>\<open>renderToc\<close> has walked a table of contents, the label index holds,
  for the reference of every node of the tree (its href without the fragment), the
  trimmed label of the last node in pre-order that has this reference; and the lookup of
  the \<^verbatim>\<open>rendered\<close> callback, which strips the fragment first, returns it. This holds
  whatever the index held before.
\<close>

theorem label_index_resolve:
  assumes "n \<in> set (preorder items)"
  shows "navLabels (renderToc items s) (cleanHref (href n)) =
           Some (js_trim (label (last (filter (\<lambda>k. cleanHref (href k) = cleanHref (href n))
                                        (preorder items))))) \<and>
         currentLabel (on_rendered (href n) (renderToc items s)) =
           js_trim (label (last (filter (\<lambda>k. cleanHref (href k) = cleanHref (href n))
                                        (preorder items))))"
proof -
  from assms have ne: "items \<noteq> []" by auto
  from assms have "cleanHref (href n) \<in> (\<lambda>n. cleanHref (href n)) ` set (preorder items)"
    by blast
  then have "fold store_label (preorder items) (navLabels s) (cleanHref (href n)) =
      Some (js_trim (label (last (filter (\<lambda>k. cleanHref (href k) = cleanHref (href n))
                                        (preorder items)))))"
    by (rule fold_store_label_last)
  then have 1: "navLabels (renderToc items s) (cleanHref (href n)) =
           Some (js_trim (label (last (filter (\<lambda>k. cleanHref (href k) = cleanHref (href n))
                                        (preorder items)))))"
    using ne by (simp add: renderToc_def Let_def fst_paint)
  show ?thesis using 1 by (simp add: on_rendered_def Let_def setStatus_def cleanHref_idem)
qed

theorem label_index_resolve_witness:
  "NavItem ''n1'' ''a.xhtml#top'' '' Part A '' (Some [NavItem ''n2'' ''a.xhtml'' ''Intro '' None])
     \<in> set (preorder toc_example) \<and>
   navLabels (renderToc toc_example (init Map.empty)) ''a.xhtml'' = Some ''Intro'' \<and>
   currentLabel (on_rendered ''a.xhtml#top'' (renderToc toc_example (init Map.empty))) = ''Intro''"
  using label_index_resolve [of "NavItem ''n1'' ''a.xhtml#top'' '' Part A '' (Some [NavItem ''n2'' ''a.xhtml'' ''Intro '' None])" toc_example "init Map.empty"]
  by (simp add: toc_example_def cleanHref_def js_trim_def js_space_def)


section \<open>Unfolding the model\<close>

lemmas step_defs = resume_def try_resume_def after_buffer_def after_ready_def
  after_navigation_def after_display_def after_metadata_def after_generate_def applyTheme_def
  load_done_def load_failed_def load_title_def settle_all_def setStatus_def setMeta_def

lemmas model_defs = pickAndOpen_def guardAuth_def openBook_start_def resetBook_def
  renderToc_def paint_item_def destroy_def openBook_uninterrupted_def on_rendered_def
  on_relocated_def uninterrupted_until_generate_def step_defs

lemmas scenario_defs = reader0_def guest0_def reader_ab_def init_def updateAuthUI_def book_a_def
  book_b_def lib_ok_def lib_corrupt_def lib_no_locations_def toc_a_def toc_b_def js_endsWith_def
  js_toLowerCase_def cleanHref_def js_trim_def js_space_def Let_def

lemmas number_defs = to_double_def binade_def bitlength.simps pow2_def round_half_even_def
  Math_round_def

lemma renderToc_fields:
  "book (renderToc items s) = book s \<and> rendition (renderToc items s) = rendition s \<and>
   live (renderToc items s) = live s \<and> console (renderToc items s) = console s \<and>
   calls (renderToc items s) = calls s \<and> next_handle (renderToc items s) = next_handle s \<and>
   statusEl (renderToc items s) = statusEl s \<and> listeners (renderToc items s) = listeners s \<and>
   fileInput_value (renderToc items s) = fileInput_value s \<and>
   metaEl (renderToc items s) = metaEl s \<and>
   currentLabel (renderToc items s) = currentLabel s"
  by (simp add: renderToc_def Let_def)

lemma resetBook_fields:
  "book (resetBook s) = None \<and> rendition (resetBook s) = None \<and>
   live (resetBook s) = live s - set_option (rendition s) - set_option (book s) \<and>
   console (resetBook s) = console s \<and> next_handle (resetBook s) = next_handle s \<and>
   navLabels (resetBook s) = Map.empty \<and> currentLabel (resetBook s) = ''idle'' \<and>
   tocEl (resetBook s) = [] \<and> viewerEl (resetBook s) = [] \<and>
   listeners (resetBook s) = listeners s \<and> session (resetBook s) = session s \<and>
   storage (resetBook s) = storage s"
  by (auto simp: resetBook_def destroy_def Let_def split: option.splits)

lemma openBook_start_fields:
  "snd (openBook_start f s) = Some (Task f AwaitBuffer) \<and>
   book (fst (openBook_start f s)) = None \<and>
   rendition (fst (openBook_start f s)) = None \<and>
   live (fst (openBook_start f s)) = live s - set_option (rendition s) - set_option (book s) \<and>
   console (fst (openBook_start f s)) = console s \<and>
   next_handle (fst (openBook_start f s)) = next_handle s \<and>
   navLabels (fst (openBook_start f s)) = Map.empty \<and>
   currentLabel (fst (openBook_start f s)) = ''idle'' \<and>
   tocEl (fst (openBook_start f s)) = [] \<and>
   viewerEl (fst (openBook_start f s)) = [] \<and>
   listeners (fst (openBook_start f s)) = listeners s \<and>
   statusEl (fst (openBook_start f s)) = ''loading epub...'' \<and>
   metaEl (fst (openBook_start f s)) = name f"
  by (simp add: openBook_start_def setStatus_def setMeta_def resetBook_fields)

lemma a_generating_state:
  "snd a_generating = Some (Task book_a AwaitGenerate) \<and>
   statusEl (fst a_generating) = ''loading epub...'' \<and>
   currentLabel (fst a_generating) = ''idle'' \<and>
   book (fst a_generating) = Some 0 \<and>
   rendition (fst a_generating) = Some 1 \<and>
   listeners (fst a_generating) = [(1, Rendered), (1, Relocated)] \<and>
   calls (fst a_generating) = [(1, ThemesDefault), (1, Display None), (0, Generate 1400)]"
  by (simp add: a_generating_def scenario_defs model_defs)

section \<open>Rounding to double precision\<close>

lemma bitlength_le: "n < 2 ^ k \<Longrightarrow> bitlength n \<le> k"
proof (induction k arbitrary: n)
  case 0
  then show ?case by (simp add: bitlength.simps)
next
  case (Suc k)
  show ?case
  proof (cases "n = 0")
    case True
    then show ?thesis by (simp add: bitlength.simps)
  next
    case False
    from Suc.prems have "n div 2 < 2 ^ k" by simp
    then have "bitlength (n div 2) \<le> k" by (rule Suc.IH)
    with False show ?thesis by (subst bitlength.simps) simp
  qed
qed

lemma round_half_even_error: "\<bar>of_int (round_half_even x) - x\<bar> \<le> 1 / 2"
  unfolding round_half_even_def Let_def by (auto simp: abs_le_iff)

lemma round_half_even_le: "x \<le> of_int n \<Longrightarrow> round_half_even x \<le> n"
  unfolding round_half_even_def Let_def
  by (auto simp: floor_le_iff)

lemma round_half_even_ge:
  assumes "of_int n \<le> x"
  shows "n \<le> round_half_even x"
proof -
  have "n \<le> \<lfloor>x\<rfloor>" using assms by (simp add: le_floor_iff)
  then show ?thesis
    unfolding round_half_even_def Let_def by auto
qed

lemma pow2_pos: "0 < pow2 k"
  by (simp add: pow2_def)

lemma pow2_small: "k \<le> - 46 \<Longrightarrow> pow2 k \<le> 1 / 2 ^ 46"
proof -
  assume k: "k \<le> - 46"
  then have "(2::real) ^ 46 \<le> 2 ^ nat (- k)"
    by (intro power_increasing) auto
  then show ?thesis using k by (simp add: pow2_def field_simps)
qed

lemma pow2_divides_100: "k \<le> - 46 \<Longrightarrow> 100 / pow2 k = of_int (100 * 2 ^ nat (- k))"
  by (simp add: pow2_def)

lemma binade_le_6: "0 < x \<Longrightarrow> x \<le> 100 \<Longrightarrow> binade x \<le> 6"
proof -
  assume x: "0 < x" "x \<le> 100"
  show ?thesis
  proof (cases "1 \<le> x")
    case True
    have "nat \<lfloor>x\<rfloor> < 2 ^ 7"
      using x by (simp add: floor_less_iff nat_less_iff)
    then have "bitlength (nat \<lfloor>x\<rfloor>) \<le> 7" by (rule bitlength_le)
    with True show ?thesis by (simp add: binade_def)
  next
    case False
    then show ?thesis by (simp add: binade_def)
  qed
qed

text \<open>The rounding keeps a product within [0,100], since 0 and 100 are doubles.\<close>

lemma to_double_range:
  assumes "0 \<le> x" and "x \<le> 100"
  shows "0 \<le> to_double x \<and> to_double x \<le> 100"
proof (cases "x = 0")
  case True
  then show ?thesis by (simp add: to_double_def)
next
  case False
  with assms have pos: "0 < x" by simp
  define e where "e = max (binade \<bar>x\<bar>) (- 1022)"
  define u where "u = pow2 (e - 52)"
  have e: "e - 52 \<le> - 46"
    using binade_le_6 [OF pos assms(2)] pos by (simp add: e_def)
  have u: "0 < u" by (simp add: u_def pow2_pos)
  have td: "to_double x = of_int (round_half_even (x / u)) * u"
    using False by (simp add: to_double_def e_def u_def Let_def)
  have "of_int 0 \<le> x / u" using pos u by simp
  then have lo: "0 \<le> round_half_even (x / u)" by (rule round_half_even_ge)
  have "x / u \<le> 100 / u" using assms(2) u by (simp add: divide_right_mono)
  then have "x / u \<le> of_int (100 * 2 ^ nat (- (e - 52)))"
    using pow2_divides_100 [OF e] by (simp add: u_def)
  then have "round_half_even (x / u) \<le> 100 * 2 ^ nat (- (e - 52))"
    by (rule round_half_even_le)
  then have "of_int (round_half_even (x / u)) \<le> (of_int (100 * 2 ^ nat (- (e - 52))) :: real)"
    by (simp only: of_int_le_iff)
  then have "of_int (round_half_even (x / u)) \<le> 100 / u"
    using pow2_divides_100 [OF e] by (simp add: u_def)
  then have hi: "of_int (round_half_even (x / u)) * u \<le> 100"
    using u by (simp add: pos_le_divide_eq)
  show ?thesis using lo hi u td by simp
qed

text \<open>Below 128 a double is within half a unit in the last place, at most \<open>2 ^ - 47\<close>.\<close>

lemma to_double_error:
  assumes "0 \<le> x" and "x \<le> 100"
  shows "\<bar>to_double x - x\<bar> \<le> 1 / 2 ^ 47"
proof (cases "x = 0")
  case True
  then show ?thesis by (simp add: to_double_def)
next
  case False
  with assms have pos: "0 < x" by simp
  define e where "e = max (binade \<bar>x\<bar>) (- 1022)"
  define u where "u = pow2 (e - 52)"
  have e: "e - 52 \<le> - 46"
    using binade_le_6 [OF pos assms(2)] pos by (simp add: e_def)
  have u: "0 < u" by (simp add: u_def pow2_pos)
  have u46: "u \<le> 1 / 2 ^ 46" using pow2_small [OF e] by (simp add: u_def)
  have td: "to_double x = of_int (round_half_even (x / u)) * u"
    using False by (simp add: to_double_def e_def u_def Let_def)
  have "to_double x - x = (of_int (round_half_even (x / u)) - x / u) * u"
    using u by (simp add: td field_simps)
  then have "\<bar>to_double x - x\<bar> = \<bar>of_int (round_half_even (x / u)) - x / u\<bar> * u"
    using u by (simp add: abs_mult)
  also have "\<dots> \<le> 1 / 2 * u"
    using round_half_even_error [of "x / u"] u by (intro mult_right_mono) auto
  also have "\<dots> \<le> 1 / 2 * (1 / 2 ^ 46)"
    using u46 by simp
  finally show ?thesis by simp
qed

lemma Math_round_error: "\<bar>of_int (Math_round y) - y\<bar> \<le> 1 / 2"
  unfolding Math_round_def by linarith

lemma Math_round_range:
  "0 \<le> y \<Longrightarrow> y \<le> 100 \<Longrightarrow> 0 \<le> Math_round y \<and> Math_round y \<le> 100"
  unfolding Math_round_def by (auto simp: le_floor_iff floor_le_iff)

lemma Math_round_near_50_05:
  assumes "\<bar>y - 5005 / 100\<bar> \<le> 4 / 10"
  shows "Math_round y = 50"
proof -
  have "50 \<le> y + 1 / 2" and "y + 1 / 2 < 51"
    using assms by linarith+
  then show ?thesis
    by (simp add: Math_round_def floor_eq_iff)
qed

lemma near_0_5005:
  assumes "\<bar>p - 5005 / 10000\<bar> \<le> 1 / 1000"
  shows "Math_round (to_double (p * 100)) = 50"
proof -
  have p: "0 \<le> p * 100" "p * 100 \<le> 100" using assms by linarith+
  have "\<bar>to_double (p * 100) - p * 100\<bar> \<le> 1 / 2 ^ 47"
    using p by (rule to_double_error)
  moreover have "1 / 2 ^ 47 \<le> (1 / 10 :: real)"
    by simp
  ultimately have "\<bar>to_double (p * 100) - 5005 / 100\<bar> \<le> 4 / 10"
    using assms by linarith
  then show ?thesis by (rule Math_round_near_50_05)
qed

text \<open>
  The double product can fall just below a tie that the exact product reaches: for the
  double nearest to 0.575 the code prints 57, and for the double nearest to 0.075 it
  prints 8, where the exact products 57.5 and 7.5 of these decimals round to 58 and 8.
\<close>

lemma percent_of_0_575:
  "Math_round (to_double (to_double (23 / 40) * 100)) = 57 \<and>
   Math_round (to_double (to_double (3 / 40) * 100)) = 8 \<and>
   Math_round (23 / 40 * 100) = 58"
  by (simp add: number_defs Let_def)

section \<open>Progress\<close>

lemma updateProgress_percent:
  "updateProgress lib location s =
     (case percent (Option.bind (book s) lib) location of
        None \<Rightarrow> s
      | Some pct \<Rightarrow>
          setStatus ((if currentLabel s = [] then ''reading'' else currentLabel s) @
                     '' / '' @ show_int pct @ ''%'') s)"
  by (simp add: updateProgress_def percent_def Let_def split: option.splits)

text \<open>
  Claim C4, as stated: on a \<^verbatim>\<open>relocated\<close> event for which no percentage is available, the
  current label alone is published as the status. It fails: book A is loaded, its section
  \<^verbatim>\<open>a1.xhtml\<close> was rendered (the current label is \<^verbatim>\<open>Alpha\<close>), the load has returned, and
  the location index is empty; after a \<^verbatim>\<open>relocated\<close> event the status still is the text
  that the end of the load published, not the label.
\<close>

theorem relocated_label_alone_counterexample:
  "snd a_reading = None \<and>
   (1, Relocated) \<in> set (listeners (fst a_reading)) \<and>
   percent (Option.bind (book (fst a_reading)) (\<lambda>b. Some (index_at 0 0))) somewhere = None \<and>
   currentLabel (emit (\<lambda>b. Some (index_at 0 0)) 1 (RelocatedEv somewhere) (fst a_reading))
     = ''Alpha'' \<and>
   statusEl (emit (\<lambda>b. Some (index_at 0 0)) 1 (RelocatedEv somewhere) (fst a_reading))
     = ''use arrows, nav, or scroll freely''"
  by (simp add: a_reading_def a_generating_def scenario_defs model_defs updateProgress_def
      percent_def index_at_def)

text \<open>
  Claim C4, amended: on a \<^verbatim>\<open>relocated\<close> event from a handle with the listener, if a
  percentage is available the status becomes the label, \<^verbatim>\<open> / \<close>, the percentage and
  \<^verbatim>\<open>%\<close>, where the label is the current label, or \<^verbatim>\<open>reading\<close> when the current label is
  empty; otherwise nothing is published and the whole state is left as it was.
\<close>

theorem relocated_status:
  assumes "(h, Relocated) \<in> set (listeners s)"
  shows "emit lib h (RelocatedEv location) s =
           (case percent (Option.bind (book s) lib) location of
              None \<Rightarrow> s
            | Some pct \<Rightarrow>
                s\<lparr> statusEl := (if currentLabel s = [] then ''reading'' else currentLabel s) @
                                '' / '' @ show_int pct @ ''%'' \<rparr>)"
  using assms
  by (simp add: on_relocated_def updateProgress_percent setStatus_def split: option.splits)

theorem relocated_status_witness:
  "(1, Relocated) \<in> set (listeners (fst a_reading)) \<and>
   statusEl (emit (\<lambda>b. Some (index_at 4 (1 / 4))) 1 (RelocatedEv somewhere) (fst a_reading)) =
     ''Alpha / 25%''"
  using relocated_status [of 1 "fst a_reading" "\<lambda>b. Some (index_at 4 (1 / 4))" somewhere]
  by (simp add: a_reading_def a_generating_def scenario_defs model_defs percent_def index_at_def
      number_defs show_int_def show_nat.simps)

text \<open>
  Claim C5, as stated: a fractional position of 0.5005 yields 51 percent. It fails: for
  the double nearest to 0.5005 the tracker yields 50, since the product, about 50.05, is
  nearer to 50 than to 51.
\<close>

theorem percent_0_5005_counterexample:
  "percent (Some (index_at 10 (to_double (5005 / 10000)))) somewhere = Some 50 \<and>
   percent (Some (index_at 10 (to_double (5005 / 10000)))) somewhere \<noteq> Some 51"
  by (simp add: percent_def index_at_def number_defs Let_def)

text \<open>
  Claim C5, amended: for a location index that is not empty and a fractional position in
  [0,1], the tracker returns the double-precision product of the position and 100,
  rounded to the nearest integer with a tie going away from zero. The result lies within
  [0,100] and is within a half and \<open>2 ^ - 47\<close> of the exact product, so that it is the
  nearest integer percent except where the rounding of the product crosses a tie. Every
  position within a thousandth of 0.5005 yields 50 percent.
\<close>

theorem percent_rounding:
  assumes "0 \<le> percentageFromCfi l (start_cfi location)"
      and "percentageFromCfi l (start_cfi location) \<le> 1"
      and "loc_length l = Some n" and "0 < n"
  shows "\<exists>pct. percent (Some l) location = Some pct \<and>
           pct = round_half_away_from_zero
                   (to_double (percentageFromCfi l (start_cfi location) * 100)) \<and>
           0 \<le> pct \<and> pct \<le> 100 \<and>
           \<bar>of_int pct - percentageFromCfi l (start_cfi location) * 100\<bar>
             \<le> 1 / 2 + 1 / 2 ^ 47 \<and>
           (\<bar>percentageFromCfi l (start_cfi location) - 5005 / 10000\<bar> \<le> 1 / 1000
              \<longrightarrow> pct = 50)"
proof -
  define p where "p = percentageFromCfi l (start_cfi location)"
  define y where "y = to_double (p * 100)"
  have p: "0 \<le> p * 100" "p * 100 \<le> 100"
    using assms(1,2) by (simp_all add: p_def)
  have y: "0 \<le> y" "y \<le> 100"
    using to_double_range [OF p] by (simp_all add: y_def)
  have pct: "percent (Some l) location = Some (Math_round y)"
    using assms(3,4) by (simp add: percent_def p_def y_def)
  have away: "Math_round y = round_half_away_from_zero y"
    using y by (simp add: Math_round_def round_half_away_from_zero_def)
  have "\<bar>of_int (Math_round y) - y\<bar> \<le> 1 / 2"
    by (rule Math_round_error)
  moreover have "\<bar>y - p * 100\<bar> \<le> 1 / 2 ^ 47"
    unfolding y_def using p by (rule to_double_error)
  ultimately have near: "\<bar>of_int (Math_round y) - p * 100\<bar> \<le> 1 / 2 + 1 / 2 ^ 47"
    by linarith
  have fifty: "\<bar>p - 5005 / 10000\<bar> \<le> 1 / 1000 \<longrightarrow> Math_round y = 50"
    unfolding y_def using near_0_5005 [of p] by blast
  show ?thesis
    using pct away Math_round_range [OF y] near fifty
    unfolding p_def y_def by auto
qed

theorem percent_rounding_witness:
  "percent (Some (index_at 10 (1 / 8))) somewhere = Some 13 \<and>
   round_half_away_from_zero (to_double (1 / 8 * 100)) = 13"
  using percent_rounding [of "index_at 10 (1 / 8)" somewhere 10]
  by (simp add: index_at_def round_half_away_from_zero_def number_defs Let_def)

text \<open>
  Claim C8, as stated: the tracker reports no number whenever the location index has not
  finished building. It fails: the load of book A is suspended at the \<^verbatim>\<open>await\<close> of the
  generation, the index already reports three entries, and a \<^verbatim>\<open>relocated\<close> event
  publishes a percentage. The code reads the length of the index, not whether the
  generation has settled.
\<close>

theorem percent_unfinished_counterexample:
  "snd a_generating = Some (Task book_a AwaitGenerate) \<and>
   percent (Some (index_at 3 (1 / 2))) somewhere = Some 50 \<and>
   statusEl (emit (\<lambda>b. Some (index_at 3 (1 / 2))) 1 (RelocatedEv somewhere) (fst a_generating))
     = ''idle / 50%''"
  by (simp add: updateProgress_percent percent_def index_at_def number_defs Let_def
      on_relocated_def a_generating_state setStatus_def show_int_def show_nat.simps)

text \<open>
  Claim C8, amended: for every location, the tracker reports no number, and
  \<^verbatim>\<open>updateProgress\<close> leaves the state as it was, whenever no book is held, the book has no
  location index, the length of the index is not a function, or the length is 0.
\<close>

theorem updateProgress_unavailable:
  assumes "book s = None \<or>
           (\<exists>b. book s = Some b \<and>
                (lib b = None \<or>
                 (\<exists>l. lib b = Some l \<and> (loc_length l = None \<or> loc_length l = Some 0))))"
  shows "updateProgress lib location s = s \<and>
         percent (Option.bind (book s) lib) location = None"
  using assms
  by (auto simp: updateProgress_def percent_def split: option.splits)

theorem updateProgress_unavailable_witness:
  "book (fst a_generating) = Some 0 \<and>
   loc_length (index_at 0 (1 / 2)) = Some 0 \<and>
   updateProgress (\<lambda>b. Some (index_at 0 (1 / 2))) somewhere (fst a_generating) = fst a_generating"
  using updateProgress_unavailable
    [of "fst a_generating" "\<lambda>b. Some (index_at 0 (1 / 2))" somewhere]
  by (simp add: a_generating_state index_at_def)


section \<open>The sign-in guard and the stored session\<close>

lemma revalidation_failed_state:
  "session revalidation_failed = None \<and>
   rendition revalidation_failed = Some 1 \<and>
   book revalidation_failed = Some 0 \<and>
   prevBtn_disabled revalidation_failed \<and> nextBtn_disabled revalidation_failed \<and>
   fileInput_disabled revalidation_failed \<and>
   authMessage revalidation_failed = ''sign in to unlock the reader'' \<and>
   statusEl revalidation_failed = ''use arrows, nav, or scroll freely'' \<and>
   calls revalidation_failed = [(1, ThemesDefault), (1, Display None), (0, Generate 1400)]"
  by (simp add: revalidation_failed_def persistSession_def a_reading_def a_generating_def
      scenario_defs model_defs)

text \<open>
  Claim C7, as stated: every invocation of previous or next made while no session is
  cached sets a user-visible message. It fails for the keyboard: book A is being read
  when the stored session is found invalid, so that the session is \<^verbatim>\<open>null\<close> and both
  buttons are disabled; the left arrow key is then refused without any message: the
  listener returns with the whole state as it was.
\<close>

theorem keydown_silent_counterexample:
  "session revalidation_failed = None \<and>
   rendition revalidation_failed = Some 1 \<and>
   prevBtn_disabled revalidation_failed \<and>
   keydown ''ArrowLeft'' revalidation_failed = revalidation_failed \<and>
   authMessage (keydown ''ArrowLeft'' revalidation_failed) \<noteq> ''sign in first - then import'' \<and>
   statusEl (keydown ''ArrowLeft'' revalidation_failed) = ''use arrows, nav, or scroll freely''"
  by (simp add: revalidation_failed_state keydown_def)

text \<open>
  Claim C7, amended: while no session is cached, picking a file (the only way to
  \<^verbatim>\<open>openBook\<close>), a click on the previous or the next button, and a drop are refused with
  a message: the result is the state before with the message
  \<^verbatim>\<open>sign in first - then import\<close> and the status \<^verbatim>\<open>login required to open books\<close> and, for
  a drop, the drag state cleared, which happens before the guard; no load is started, and
  the book handle, the rendering handle, the label index, the current label, the live
  handles and the calls made on the library are unchanged. A navigation key is refused
  silently: the state is left as it was and no message is set.
\<close>

theorem gate_refuses:
  assumes "session s = None"
  shows "pickAndOpen files s =
           (s\<lparr> authMessage := ''sign in first - then import'',
               statusEl := ''login required to open books'' \<rparr>, None) \<and>
         prevBtn_click s =
           s\<lparr> authMessage := ''sign in first - then import'',
              statusEl := ''login required to open books'' \<rparr> \<and>
         nextBtn_click s =
           s\<lparr> authMessage := ''sign in first - then import'',
              statusEl := ''login required to open books'' \<rparr> \<and>
         drop_handler files s =
           (s\<lparr> dragging := False, dropHint_visible := Some ''false'',
               authMessage := ''sign in first - then import'',
               statusEl := ''login required to open books'' \<rparr>, None) \<and>
         keydown key s = s \<and>
         (\<forall>s' \<in> {fst (pickAndOpen files s), prevBtn_click s, nextBtn_click s,
                  fst (drop_handler files s)}.
            book s' = book s \<and> rendition s' = rendition s \<and> navLabels s' = navLabels s \<and>
            currentLabel s' = currentLabel s \<and> live s' = live s \<and> calls s' = calls s \<and>
            authMessage s' = ''sign in first - then import'')"
  using assms
  by (simp add: pickAndOpen_def prevBtn_click_def nextBtn_click_def drop_handler_def
      guardAuth_def setStatus_def hideDropState_def keydown_def split: option.splits)

theorem gate_refuses_witness:
  "session revalidation_failed = None \<and>
   rendition revalidation_failed = Some 1 \<and>
   snd (pickAndOpen (Some [book_b]) revalidation_failed) = None \<and>
   book (fst (pickAndOpen (Some [book_b]) revalidation_failed)) = Some 0 \<and>
   statusEl (fst (pickAndOpen (Some [book_b]) revalidation_failed)) =
     ''login required to open books'' \<and>
   statusEl (prevBtn_click revalidation_failed) = ''login required to open books'' \<and>
   calls (prevBtn_click revalidation_failed) =
     [(1, ThemesDefault), (1, Display None), (0, Generate 1400)] \<and>
   keydown ''PageDown'' revalidation_failed = revalidation_failed"
  using gate_refuses [of revalidation_failed "Some [book_b]" "''PageDown''"]
  by (simp add: revalidation_failed_state)

text \<open>
  Claim C10. After \<^verbatim>\<open>persistSession\<close> with a payload or with \<^verbatim>\<open>null\<close>, after the
  revalidation of \<^verbatim>\<open>bootstrapSession\<close> has succeeded or failed, after a logout, and after a
  login or registration has succeeded, the entry of the local storage under the session
  key is the serialization of the session when there is one, and is absent when there is
  none.
\<close>

theorem session_storage_agree:
  "storage_consistent stringify (persistSession stringify payload s) \<and>
   storage_consistent stringify (bootstrap_resume stringify response t s) \<and>
   storage_consistent stringify (logout stringify s) \<and>
   storage_consistent stringify (signed_in stringify msg data s)"
  by (cases t)
     (simp add: storage_consistent_def persistSession_def updateAuthUI_def
       bootstrap_resume_def logout_def signed_in_def setStatus_def setMeta_def resetBook_def
       destroy_def Let_def split: option.splits settled.splits)

theorem session_storage_agree_witness:
  "storage (persistSession token (Some reader_ab) guest0) SESSION_KEY = Some ''t1'' \<and>
   session (persistSession token (Some reader_ab) guest0) = Some reader_ab \<and>
   storage (logout token reader0) SESSION_KEY = None \<and>
   session (logout token reader0) = None"
  using session_storage_agree [of token "Some reader_ab" guest0 "Rejected []" "AwaitMe None" "[]" reader_ab]
        session_storage_agree [of token None reader0 "Rejected []" "AwaitMe None" "[]" reader_ab]
  by (simp add: storage_consistent_def persistSession_def logout_def updateAuthUI_def
      setStatus_def setMeta_def resetBook_fields reader_ab_def)

section \<open>Loading\<close>

text \<open>A load that nothing interleaves with, in which a step fails.\<close>

lemma failed_load_from:
  assumes "first_failure c = Some e" and "book s = None" and "rendition s = None"
  shows "snd (settle_all c (s, Some (Task f AwaitBuffer))) = None \<and>
         statusEl (fst (settle_all c (s, Some (Task f AwaitBuffer)))) = ''unable to load epub'' \<and>
         console (fst (settle_all c (s, Some (Task f AwaitBuffer)))) =
           console s @ [ConsoleError e] \<and>
         fileInput_value (fst (settle_all c (s, Some (Task f AwaitBuffer)))) = [] \<and>
         book (fst (settle_all c (s, Some (Task f AwaitBuffer)))) =
           (if book_created c then Some (next_handle s) else None) \<and>
         rendition (fst (settle_all c (s, Some (Task f AwaitBuffer)))) =
           (if rendition_created c then Some (next_handle s + 1) else None) \<and>
         live (fst (settle_all c (s, Some (Task f AwaitBuffer)))) =
           live s \<union> (if book_created c then {next_handle s} else {}) \<union>
             (if rendition_created c then {next_handle s + 1} else {})"
  using assms
  by (auto simp: first_failure_def book_created_def rendition_created_def fulfilled_def
      step_defs renderToc_fields Let_def split: settled.splits)

lemma pending_load_from:
  assumes "first_failure c = None" and "book s = None" and "rendition s = None"
  shows "snd (settle c (settle c (settle c (settle c (settle c
             (s, Some (Task f AwaitBuffer))))))) = Some (Task f AwaitGenerate) \<and>
         statusEl (fst (settle c (settle c (settle c (settle c (settle c
             (s, Some (Task f AwaitBuffer)))))))) = statusEl s \<and>
         console (fst (settle c (settle c (settle c (settle c (settle c
             (s, Some (Task f AwaitBuffer)))))))) = console s"
  using assms
  by (auto simp: first_failure_def step_defs renderToc_fields Let_def split: settled.splits)

text \<open>
  In a load that nothing interleaves with, the handles that the attempt created before
  it failed are the ones left in the variables, and the next reset releases them.
\<close>

lemma uninterrupted_failure:
  assumes "first_failure c = Some e"
  shows "snd (openBook_uninterrupted c f s) = None \<and>
         statusEl (fst (openBook_uninterrupted c f s)) = ''unable to load epub'' \<and>
         console (fst (openBook_uninterrupted c f s)) = console s @ [ConsoleError e] \<and>
         fileInput_value (fst (openBook_uninterrupted c f s)) = [] \<and>
         book (fst (openBook_uninterrupted c f s)) =
           (if book_created c then Some (next_handle s) else None) \<and>
         rendition (fst (openBook_uninterrupted c f s)) =
           (if rendition_created c then Some (next_handle s + 1) else None) \<and>
         live (fst (openBook_uninterrupted c f s)) =
           (live s - set_option (rendition s) - set_option (book s)) \<union>
           (if book_created c then {next_handle s} else {}) \<union>
           (if rendition_created c then {next_handle s + 1} else {}) \<and>
         live (resetBook (fst (openBook_uninterrupted c f s))) \<subseteq>
           live s - set_option (rendition s) - set_option (book s)"
proof -
  obtain s1 where start: "openBook_start f s = (s1, Some (Task f AwaitBuffer))"
    using openBook_start_fields [of f s] by (cases "openBook_start f s") simp
  then have s1: "s1 = fst (openBook_start f s)" by simp
  have b: "book s1 = None" and r: "rendition s1 = None"
    using openBook_start_fields [of f s] s1 by simp_all
  have run: "openBook_uninterrupted c f s = settle_all c (s1, Some (Task f AwaitBuffer))"
    by (simp add: openBook_uninterrupted_def start)
  note failed = failed_load_from [OF assms b r, of f]
  have fields: "console s1 = console s" "next_handle s1 = next_handle s"
    "live s1 = live s - set_option (rendition s) - set_option (book s)"
    using openBook_start_fields [of f s] s1 by simp_all
  show ?thesis
    using failed unfolding run fields
    by (auto simp: resetBook_fields)
qed

text \<open>
  With another load in between, the variable \<^verbatim>\<open>book\<close> holds the handle of the other load
  when this one fails, and the handle that the failed load created is live and in no
  variable: a reset does not release it.
\<close>

lemma failure_under_another_load:
  "snd a_fails_under_b = None \<and>
   statusEl (fst a_fails_under_b) = ''unable to load epub'' \<and>
   book (fst a_fails_under_b) = Some 1 \<and>
   0 \<in> live (fst a_fails_under_b) \<and> 1 \<in> live (fst a_fails_under_b) \<and>
   0 \<in> live (resetBook (fst a_fails_under_b)) \<and>
   1 \<notin> live (resetBook (fst a_fails_under_b))"
  by (simp add: a_fails_under_b_def scenario_defs model_defs)

text \<open>
  Claim C1, as stated: after a load that fails, the status reads
  \<^verbatim>\<open>unable to load book\<close> and every handle created during the attempt has been released.
  It fails: for a file whose bytes are not a book (\<^verbatim>\<open>book.ready\<close> is rejected), the call
  returns with another status text, and the book handle made by \<^verbatim>\<open>ePub(buffer)\<close> is still
  held by the variable \<^verbatim>\<open>book\<close> and still live.
\<close>

theorem openBook_failure_counterexample:
  "first_failure lib_corrupt = Some ''invalid archive'' \<and>
   snd (openBook_uninterrupted lib_corrupt book_a reader0) = None \<and>
   statusEl (fst (openBook_uninterrupted lib_corrupt book_a reader0)) \<noteq> ''unable to load book'' \<and>
   book (fst (openBook_uninterrupted lib_corrupt book_a reader0)) = Some 0 \<and>
   0 \<in> live (fst (openBook_uninterrupted lib_corrupt book_a reader0))"
  by (simp add: first_failure_def scenario_defs model_defs)

text \<open>
  Claim C1, amended: whenever a resumed call of \<^verbatim>\<open>openBook\<close> throws in a step from the
  file read to the metadata, in whatever state the module is by then, the call returns;
  the status reads \<^verbatim>\<open>unable to load epub\<close>, the error is logged, the file input is
  cleared, and nothing else is changed by the \<^verbatim>\<open>catch\<close> and \<^verbatim>\<open>finally\<close> blocks. The
  failing call releases no handle: up to the exception it makes no \<^verbatim>\<open>destroy\<close> call, every
  handle that was live is still live, the variable \<^verbatim>\<open>book\<close> holds what it held, and
  \<^verbatim>\<open>rendition\<close> holds what it held or the rendering handle that this step has just
  created, which is live. The handles of the session that was open when a call started
  were released by the reset at its start.
\<close>

theorem load_failure:
  assumes "try_resume c t s = Inl (e, s1)"
  shows "resume c t s =
           (s1\<lparr> console := console s1 @ [ConsoleError e],
                statusEl := ''unable to load epub'',
                fileInput_value := [] \<rparr>, None) \<and>
         console s1 = console s \<and> statusEl s1 = statusEl s \<and>
         filter (\<lambda>x. snd x = Destroy) (calls s1) = filter (\<lambda>x. snd x = Destroy) (calls s) \<and>
         live s \<subseteq> live s1 \<and> live s1 \<subseteq> insert (next_handle s) (live s) \<and>
         book s1 = book s \<and>
         (rendition s1 = rendition s \<or>
          (rendition s1 = Some (next_handle s) \<and> next_handle s \<in> live s1)) \<and>
         (\<forall>h \<in> set_option (book s0) \<union> set_option (rendition s0).
            h \<notin> live (fst (openBook_start f s0)))"
proof -
  have start: "\<forall>h \<in> set_option (book s0) \<union> set_option (rendition s0).
            h \<notin> live (fst (openBook_start f s0))"
    using openBook_start_fields [of f s0] by auto
  have step: "resume c t s =
           (s1\<lparr> console := console s1 @ [ConsoleError e],
                statusEl := ''unable to load epub'',
                fileInput_value := [] \<rparr>, None)"
    using assms by (simp add: resume_def load_failed_def setStatus_def)
  have rest: "console s1 = console s \<and> statusEl s1 = statusEl s \<and>
         filter (\<lambda>x. snd x = Destroy) (calls s1) = filter (\<lambda>x. snd x = Destroy) (calls s) \<and>
         live s \<subseteq> live s1 \<and> live s1 \<subseteq> insert (next_handle s) (live s) \<and>
         book s1 = book s \<and>
         (rendition s1 = rendition s \<or>
          (rendition s1 = Some (next_handle s) \<and> next_handle s \<in> live s1))"
    using assms
    by (cases "task_pc t")
       (auto simp: try_resume_def after_buffer_def after_ready_def after_navigation_def
          after_display_def after_metadata_def after_generate_def applyTheme_def
          renderToc_fields Let_def
          split: settled.splits option.splits sum.splits)
  show ?thesis using start step rest by blast
qed

theorem load_failure_witness:
  "try_resume lib_corrupt (Task book_a AwaitReady) (fst corrupt_opening) =
     Inl (''invalid archive'', fst corrupt_opening) \<and>
   snd corrupt_opening = Some (Task book_a AwaitReady) \<and>
   statusEl (fst (resume lib_corrupt (Task book_a AwaitReady) (fst corrupt_opening))) =
     ''unable to load epub'' \<and>
   console (fst (resume lib_corrupt (Task book_a AwaitReady) (fst corrupt_opening))) =
     [ConsoleError ''invalid archive''] \<and>
   book (fst corrupt_opening) = Some 0 \<and> 0 \<in> live (fst corrupt_opening)"
proof -
  have h: "try_resume lib_corrupt (Task book_a AwaitReady) (fst corrupt_opening) =
     Inl (''invalid archive'', fst corrupt_opening)"
    by (simp add: try_resume_def after_ready_def lib_corrupt_def lib_ok_def)
  have st: "snd corrupt_opening = Some (Task book_a AwaitReady) \<and> console (fst corrupt_opening) = [] \<and>
    book (fst corrupt_opening) = Some 0 \<and> 0 \<in> live (fst corrupt_opening)"
    by (simp add: corrupt_opening_def scenario_defs model_defs)
  show ?thesis
    using h st load_failure [OF h, of reader0 book_a] by simp
qed


text \<open>
  Claim C3, as stated: the generation of the location index runs detached from the load
  and does not hold back the ready status. It fails: once the generation has been
  requested for book A and is pending, the call is suspended at its \<^verbatim>\<open>await\<close> and the
  status still reads \<^verbatim>\<open>loading epub...\<close>; the final status is published when the
  generation settles, here by a rejection.
\<close>

theorem generation_detached_counterexample:
  "snd a_generating = Some (Task book_a AwaitGenerate) \<and>
   (0, Generate 1400) \<in> set (calls (fst a_generating)) \<and>
   fulfilled (generate_r lib_no_locations) = False \<and>
   statusEl (fst a_generating) = ''loading epub...'' \<and>
   statusEl (fst (settle lib_no_locations a_generating)) = ''use arrows, nav, or scroll freely''"
  by (simp add: a_generating_def fulfilled_def scenario_defs model_defs)

text \<open>
  Claim C3, amended: when a call of \<^verbatim>\<open>openBook\<close> resumes with the metadata, in whatever
  state the module is by then, and the variable \<^verbatim>\<open>book\<close> holds a handle, the generation
  of the location index is requested on it and awaited inside the load: the step writes
  the meta line, records the request and nothing else, and the call is suspended without
  having published the final status. If \<^verbatim>\<open>book\<close> is \<^verbatim>\<open>null\<close> by then (a logout ran in
  between), no generation is requested: the exception is logged as the warning
  \<^verbatim>\<open>locations unavailable\<close> and the load finishes at once. When the awaited generation
  settles, fulfilled or rejected, the load publishes the final status, clears the file
  input and returns; a rejection is logged as the warning \<^verbatim>\<open>locations unavailable\<close>, and
  nothing else is changed. In a load that nothing interleaves with and whose steps up to
  the metadata succeed, the status reads \<^verbatim>\<open>loading epub...\<close> while the generation is
  pending, and the final status and the warning come when it settles.
\<close>

theorem generation_awaited:
  "(\<forall>metadata b.
      metadata_r c = Fulfilled metadata \<and> book s = Some b \<longrightarrow>
      resume c (Task f AwaitMetadata) s =
        ((setMeta (load_title f metadata) (map_option js_trim (creator metadata)) s)
           \<lparr> calls := calls s @ [(b, Generate 1400)] \<rparr>,
         Some (Task f AwaitGenerate))) \<and>
   (\<forall>metadata.
      metadata_r c = Fulfilled metadata \<and> book s = None \<longrightarrow>
      resume c (Task f AwaitMetadata) s =
        ((setMeta (load_title f metadata) (map_option js_trim (creator metadata)) s)
           \<lparr> console := console s @ [ConsoleWarn ''locations unavailable'' TypeError],
             statusEl := ''use arrows, nav, or scroll freely'',
             fileInput_value := [] \<rparr>,
         None)) \<and>
   resume c (Task f AwaitGenerate) s =
     ((case generate_r c of
         Fulfilled _ \<Rightarrow> s
       | Rejected e \<Rightarrow> s\<lparr> console := console s @ [ConsoleWarn ''locations unavailable'' e] \<rparr>)
        \<lparr> statusEl := ''use arrows, nav, or scroll freely'', fileInput_value := [] \<rparr>,
      None) \<and>
   (first_failure c = None \<longrightarrow>
      snd (uninterrupted_until_generate c f s) = Some (Task f AwaitGenerate) \<and>
      statusEl (fst (uninterrupted_until_generate c f s)) = ''loading epub...'' \<and>
      snd (openBook_uninterrupted c f s) = None \<and>
      statusEl (fst (openBook_uninterrupted c f s)) = ''use arrows, nav, or scroll freely'' \<and>
      console (fst (openBook_uninterrupted c f s)) =
        console s @ (case generate_r c of
                       Rejected e \<Rightarrow> [ConsoleWarn ''locations unavailable'' e]
                     | Fulfilled _ \<Rightarrow> []))"
proof -
  have requested: "\<forall>metadata b.
      metadata_r c = Fulfilled metadata \<and> book s = Some b \<longrightarrow>
      resume c (Task f AwaitMetadata) s =
        ((setMeta (load_title f metadata) (map_option js_trim (creator metadata)) s)
           \<lparr> calls := calls s @ [(b, Generate 1400)] \<rparr>,
         Some (Task f AwaitGenerate))"
    by (simp add: resume_def try_resume_def after_metadata_def setMeta_def Let_def)
  have no_book: "\<forall>metadata.
      metadata_r c = Fulfilled metadata \<and> book s = None \<longrightarrow>
      resume c (Task f AwaitMetadata) s =
        ((setMeta (load_title f metadata) (map_option js_trim (creator metadata)) s)
           \<lparr> console := console s @ [ConsoleWarn ''locations unavailable'' TypeError],
             statusEl := ''use arrows, nav, or scroll freely'',
             fileInput_value := [] \<rparr>,
         None)"
    by (simp add: resume_def try_resume_def after_metadata_def setMeta_def load_done_def
        setStatus_def Let_def)
  have settled: "resume c (Task f AwaitGenerate) s =
     ((case generate_r c of
         Fulfilled _ \<Rightarrow> s
       | Rejected e \<Rightarrow> s\<lparr> console := console s @ [ConsoleWarn ''locations unavailable'' e] \<rparr>)
        \<lparr> statusEl := ''use arrows, nav, or scroll freely'', fileInput_value := [] \<rparr>,
      None)"
    by (simp add: resume_def try_resume_def after_generate_def load_done_def setStatus_def
        split: settled.splits)
  have alone: "snd (uninterrupted_until_generate c f s) = Some (Task f AwaitGenerate) \<and>
      statusEl (fst (uninterrupted_until_generate c f s)) = ''loading epub...'' \<and>
      snd (openBook_uninterrupted c f s) = None \<and>
      statusEl (fst (openBook_uninterrupted c f s)) = ''use arrows, nav, or scroll freely'' \<and>
      console (fst (openBook_uninterrupted c f s)) =
        console s @ (case generate_r c of
                       Rejected e \<Rightarrow> [ConsoleWarn ''locations unavailable'' e]
                     | Fulfilled _ \<Rightarrow> [])"
    if ok: "first_failure c = None"
  proof -
    obtain s1 where start: "openBook_start f s = (s1, Some (Task f AwaitBuffer))"
      using openBook_start_fields [of f s] by (cases "openBook_start f s") simp
    then have s1: "s1 = fst (openBook_start f s)" by simp
    have b: "book s1 = None" and r: "rendition s1 = None"
      using openBook_start_fields [of f s] s1 by simp_all
    have fields: "console s1 = console s" "statusEl s1 = ''loading epub...''"
      using openBook_start_fields [of f s] s1 by simp_all
    obtain s5 where s5: "uninterrupted_until_generate c f s = (s5, Some (Task f AwaitGenerate))"
      using pending_load_from [OF ok b r, of f]
      by (cases "uninterrupted_until_generate c f s")
         (simp add: uninterrupted_until_generate_def start)
    have s5_fields: "statusEl s5 = ''loading epub...''" "console s5 = console s"
      using pending_load_from [OF ok b r, of f] s5 fields
      by (simp_all add: uninterrupted_until_generate_def start)
    have run: "openBook_uninterrupted c f s = settle c (uninterrupted_until_generate c f s)"
      by (simp add: openBook_uninterrupted_def settle_all_def uninterrupted_until_generate_def)
    show ?thesis
      unfolding run s5 using s5_fields
      by (simp add: resume_def try_resume_def after_generate_def load_done_def setStatus_def
          split: settled.splits)
  qed
  show ?thesis
    using requested no_book settled alone by blast
qed

theorem generation_awaited_witness:
  "first_failure lib_no_locations = None \<and>
   metadata_r lib_no_locations = Fulfilled \<lparr> title = Some ''Book A'', creator = None \<rparr> \<and>
   book (fst a_at_metadata) = Some 0 \<and>
   snd (resume lib_no_locations (Task book_a AwaitMetadata) (fst a_at_metadata)) =
     Some (Task book_a AwaitGenerate) \<and>
   statusEl (fst (resume lib_no_locations (Task book_a AwaitMetadata) (fst a_at_metadata))) =
     ''loading epub...'' \<and>
   statusEl (fst (openBook_uninterrupted lib_no_locations book_a reader0)) =
     ''use arrows, nav, or scroll freely'' \<and>
   console (fst (openBook_uninterrupted lib_no_locations book_a reader0)) =
     [ConsoleWarn ''locations unavailable'' ''too large'']"
proof -
  have h: "first_failure lib_no_locations = None"
    by (simp add: first_failure_def scenario_defs)
  have m: "metadata_r lib_no_locations = Fulfilled \<lparr> title = Some ''Book A'', creator = None \<rparr>"
    by (simp add: lib_no_locations_def lib_ok_def)
  have g: "generate_r lib_no_locations = Rejected ''too large''"
    by (simp add: lib_no_locations_def)
  have c: "console reader0 = []"
    by (simp add: reader0_def init_def updateAuthUI_def)
  have b: "book (fst a_at_metadata) = Some 0 \<and> statusEl (fst a_at_metadata) = ''loading epub...''"
    by (simp add: a_at_metadata_def scenario_defs model_defs)
  note t = generation_awaited [of lib_no_locations "fst a_at_metadata" book_a]
  note u = generation_awaited [of lib_no_locations reader0 book_a]
  have req: "resume lib_no_locations (Task book_a AwaitMetadata) (fst a_at_metadata) =
        ((setMeta (load_title book_a \<lparr> title = Some ''Book A'', creator = None \<rparr>)
            (map_option js_trim (creator \<lparr> title = Some ''Book A'', creator = None \<rparr>))
            (fst a_at_metadata))
           \<lparr> calls := calls (fst a_at_metadata) @ [(0, Generate 1400)] \<rparr>,
         Some (Task book_a AwaitGenerate))"
    using t m b by blast
  have alone: "statusEl (fst (openBook_uninterrupted lib_no_locations book_a reader0)) =
     ''use arrows, nav, or scroll freely'' \<and>
   console (fst (openBook_uninterrupted lib_no_locations book_a reader0)) =
     [ConsoleWarn ''locations unavailable'' ''too large'']"
    using u h by (simp add: g c)
  show ?thesis
    using h m b alone by (simp add: req setMeta_def)
qed

text \<open>
  Claim C2, as stated: once book B has been opened over book A, no event of A's rendering
  handle and no late completion of A's load changes what is displayed. It fails: book B is
  picked while the generation for A is pending; the load of B settles and its section
  \<^verbatim>\<open>b1.xhtml\<close> is rendered, so the label and the status read \<^verbatim>\<open>Beta\<close>. A's rendering
  handle 1 is destroyed but its listeners stay: a \<^verbatim>\<open>rendered\<close> event from it sets the
  label and the status to \<^verbatim>\<open>a1\<close>. When the generation for A settles, the resumed load of
  A replaces the status of B by its own final status. And when B is picked while A awaits
  its metadata, the resumed load of A replaces the meta line \<^verbatim>\<open>Book B\<close> by \<^verbatim>\<open>Book A\<close>.
\<close>

theorem superseded_load_counterexample:
  "snd a_generating = Some (Task book_a AwaitGenerate) \<and>
   rendition (fst a_generating) = Some 1 \<and>
   snd b_settled = None \<and>
   rendition b_reading = Some 3 \<and> 1 \<notin> live b_reading \<and>
   currentLabel b_reading = ''Beta'' \<and> statusEl b_reading = ''Beta'' \<and>
   currentLabel (emit (\<lambda>b. None) 1 (RenderedEv ''a1.xhtml'') b_reading) = ''a1'' \<and>
   statusEl (emit (\<lambda>b. None) 1 (RenderedEv ''a1.xhtml'') b_reading) = ''a1'' \<and>
   statusEl (fst (settle (lib_ok toc_a ''Book A'') (b_reading, snd a_generating)))
     = ''use arrows, nav, or scroll freely'' \<and>
   snd a_at_metadata = Some (Task book_a AwaitMetadata) \<and>
   snd b_over_metadata = None \<and>
   metaEl (fst b_over_metadata) = ''Book B'' \<and>
   metaEl (fst (settle (lib_ok toc_a ''Book A'') (fst b_over_metadata, snd a_at_metadata)))
     = ''Book A''"
  by (simp add: b_reading_def b_settled_def a_generating_def a_at_metadata_def
      b_over_metadata_def scenario_defs model_defs cleanText_def replace_dash_underscore_def)

text \<open>
  Claim C2, amended: opening a book first tears the active session down, before any
  asynchronous step of the new load: the handles of the old session are destroyed and no
  longer live, the variables \<^verbatim>\<open>book\<close> and \<^verbatim>\<open>rendition\<close> are \<^verbatim>\<open>null\<close>, the label index,
  the navigation panel and the viewer are empty and the current label is \<^verbatim>\<open>idle\<close>; for
  a signed-in reader, picking one file is this opening. There is no guard against the
  superseded load. The listeners of the old rendering handle are not removed: a
  \<^verbatim>\<open>rendered\<close> or \<^verbatim>\<open>relocated\<close> event from such a handle runs its callback on the state
  of the new load. And a continuation of the superseded load, resumed in whatever state
  the module is by then, writes as in its own load: with the metadata it sets the meta
  line to its own title and author, and when its generation settles it sets the final
  status.
\<close>

theorem openBook_tears_down_first:
  "book (fst (openBook_start f s)) = None \<and>
   rendition (fst (openBook_start f s)) = None \<and>
   navLabels (fst (openBook_start f s)) = Map.empty \<and>
   currentLabel (fst (openBook_start f s)) = ''idle'' \<and>
   tocEl (fst (openBook_start f s)) = [] \<and>
   viewerEl (fst (openBook_start f s)) = [] \<and>
   (\<forall>h \<in> set_option (book s) \<union> set_option (rendition s).
      h \<notin> live (fst (openBook_start f s)) \<and>
      (h, Destroy) \<in> set (calls (fst (openBook_start f s)))) \<and>
   listeners (fst (openBook_start f s)) = listeners s \<and>
   (session s \<noteq> None \<longrightarrow> pickAndOpen (Some [f]) s = openBook_start f s) \<and>
   (\<forall>h \<in> fst ` set (listeners s).
      ((h, Rendered) \<in> set (listeners s) \<longrightarrow>
         emit lib h (RenderedEv x) (fst (openBook_start f s)) =
           on_rendered x (fst (openBook_start f s))) \<and>
      ((h, Relocated) \<in> set (listeners s) \<longrightarrow>
         emit lib h (RelocatedEv location) (fst (openBook_start f s)) =
           updateProgress lib location (fst (openBook_start f s)))) \<and>
   (\<forall>metadata.
      metadata_r c = Fulfilled metadata \<longrightarrow>
      metaEl (fst (resume c (Task g AwaitMetadata) s2)) =
        metaEl (setMeta (load_title g metadata) (map_option js_trim (creator metadata)) s2)) \<and>
   statusEl (fst (resume c (Task g AwaitGenerate) s2)) = ''use arrows, nav, or scroll freely''"
proof -
  have teardown: "book (fst (openBook_start f s)) = None \<and>
   rendition (fst (openBook_start f s)) = None \<and>
   navLabels (fst (openBook_start f s)) = Map.empty \<and>
   currentLabel (fst (openBook_start f s)) = ''idle'' \<and>
   tocEl (fst (openBook_start f s)) = [] \<and>
   viewerEl (fst (openBook_start f s)) = [] \<and>
   (\<forall>h \<in> set_option (book s) \<union> set_option (rendition s).
      h \<notin> live (fst (openBook_start f s)) \<and>
      (h, Destroy) \<in> set (calls (fst (openBook_start f s)))) \<and>
   listeners (fst (openBook_start f s)) = listeners s \<and>
   (session s \<noteq> None \<longrightarrow> pickAndOpen (Some [f]) s = openBook_start f s)"
    by (auto simp: openBook_start_def setStatus_def setMeta_def resetBook_def destroy_def
        pickAndOpen_def guardAuth_def Let_def split: option.splits)
  have events: "\<forall>h \<in> fst ` set (listeners s).
      ((h, Rendered) \<in> set (listeners s) \<longrightarrow>
         emit lib h (RenderedEv x) (fst (openBook_start f s)) =
           on_rendered x (fst (openBook_start f s))) \<and>
      ((h, Relocated) \<in> set (listeners s) \<longrightarrow>
         emit lib h (RelocatedEv location) (fst (openBook_start f s)) =
           updateProgress lib location (fst (openBook_start f s)))"
    using openBook_start_fields [of f s] by (simp add: on_relocated_def)
  have meta: "\<forall>metadata.
      metadata_r c = Fulfilled metadata \<longrightarrow>
      metaEl (fst (resume c (Task g AwaitMetadata) s2)) =
        metaEl (setMeta (load_title g metadata) (map_option js_trim (creator metadata)) s2)"
    by (simp add: resume_def try_resume_def after_metadata_def setMeta_def load_done_def
        setStatus_def Let_def split: option.splits)
  have status: "statusEl (fst (resume c (Task g AwaitGenerate) s2)) =
      ''use arrows, nav, or scroll freely''"
    by (simp add: resume_def try_resume_def after_generate_def load_done_def setStatus_def
        split: settled.splits)
  show ?thesis
    using teardown events meta status by blast
qed

theorem openBook_tears_down_first_witness:
  "book (fst a_generating) = Some 0 \<and> rendition (fst a_generating) = Some 1 \<and>
   (1, Relocated) \<in> set (listeners (fst a_generating)) \<and>
   book (fst (openBook_start book_b (fst a_generating))) = None \<and>
   live (fst (openBook_start book_b (fst a_generating))) = {} \<and>
   (1, Rendered) \<in> set (listeners (fst (openBook_start book_b (fst a_generating)))) \<and>
   metaEl (fst (resume (lib_ok toc_a ''Book A'') (Task book_a AwaitMetadata)
                 (fst b_over_metadata))) = ''Book A''"
proof -
  have m: "metadata_r (lib_ok toc_a ''Book A'') =
      Fulfilled \<lparr> title = Some ''Book A'', creator = None \<rparr>"
    by (simp add: lib_ok_def)
  have a: "book (fst a_generating) = Some 0 \<and> rendition (fst a_generating) = Some 1 \<and>
      (1, Relocated) \<in> set (listeners (fst a_generating)) \<and>
      (1, Rendered) \<in> set (listeners (fst a_generating)) \<and>
      live (fst a_generating) = {1, 0}"
    by (simp add: a_generating_def scenario_defs model_defs)
  note t = openBook_tears_down_first
    [of book_b "fst a_generating" _ _ _ "lib_ok toc_a ''Book A''" book_a "fst b_over_metadata"]
  have meta: "metaEl (fst (resume (lib_ok toc_a ''Book A'') (Task book_a AwaitMetadata)
                 (fst b_over_metadata))) = ''Book A''"
    using t m by (simp add: setMeta_def load_title_def js_trim_def js_space_def)
  have gone: "book (fst (openBook_start book_b (fst a_generating))) = None \<and>
      live (fst (openBook_start book_b (fst a_generating))) = {} \<and>
      (1, Rendered) \<in> set (listeners (fst (openBook_start book_b (fst a_generating))))"
    using a openBook_start_fields [of book_b "fst a_generating"] by auto
  show ?thesis
    using a meta gone by simp
qed


end
